theory Spec2Isabelle
  imports Complex_Main "HOL-Library.Char_ord" "HOL-Library.List_Lexorder"
begin

section \<open>JavaScript numbers\<close>

text \<open>
  A JavaScript number is an IEEE-754 double. Quantities that the program only ever
  holds as integers (line counts, file counts, percentages after \<open>Math.round\<close>, PR
  numbers, millisecond timestamps) are modelled as \<open>int\<close>: below \<open>2^53\<close> the double
  sum, difference and product of integers is exact. Every other arithmetic result is a
  rational that is rounded to the nearest double, ties to even (\<open>fl64\<close>), after each
  operation, as the hardware does. \<open>fl64\<close> covers the normal range (no overflow to
  infinity, no subnormals), which is where all values of this program lie.
\<close>

definition pow2 :: "int \<Rightarrow> rat" where
  "pow2 e = (if 0 \<le> e then 2 ^ nat e else 1 / 2 ^ nat (- e))"

function bitlen :: "int \<Rightarrow> int" where
  "bitlen n = (if n \<le> 0 then 0 else 1 + bitlen (n div 2))"
  by pat_completeness auto
termination
  by (relation "measure nat") auto

declare bitlen.simps [simp del]

text \<open>\<open>ilog2 a\<close> is the binary exponent of a positive rational:
  \<open>2^(ilog2 a) \<le> a < 2^(ilog2 a + 1)\<close>. It is one of \<open>k\<close> and \<open>k - 1\<close> for the difference
  \<open>k\<close> of the bit lengths of numerator and denominator.\<close>

definition ilog2_adjust :: "rat \<Rightarrow> int \<Rightarrow> int" where
  "ilog2_adjust a k = (if pow2 k \<le> a then k else k - 1)"

definition ilog2 :: "rat \<Rightarrow> int" where
  "ilog2 a = (case quotient_of a of (p, q) \<Rightarrow> ilog2_adjust a (bitlen p - bitlen q))"

text \<open>Rounding to the nearest integer, a tie going to the even one.\<close>

definition roundFrom :: "rat \<Rightarrow> int \<Rightarrow> int" where
  "roundFrom m f =
     (if m - of_int f < 1 / 2 then f else if 1 / 2 < m - of_int f then f + 1
      else if even f then f else f + 1)"

definition roundHalfEven :: "rat \<Rightarrow> int" where
  "roundHalfEven m = roundFrom m \<lfloor>m\<rfloor>"

text \<open>Rounding to a 53-bit significand: with \<open>e = ilog2 \<bar>x\<bar> - 52\<close> the significand
  \<open>\<bar>x\<bar> / 2^e\<close> lies in \<open>[2^52, 2^53)\<close> and is rounded to an integer.\<close>

definition fl64_scale :: "rat \<Rightarrow> rat \<Rightarrow> rat" where
  "fl64_scale x p = sgn x * of_int (roundHalfEven (\<bar>x\<bar> / p)) * p"

definition fl64 :: "rat \<Rightarrow> rat" where
  "fl64 x = (if x = 0 then 0 else fl64_scale x (pow2 (ilog2 \<bar>x\<bar> - 52)))"

text \<open>A decimal literal of the source (\<open>0.7\<close>) denotes the double nearest to it.\<close>

definition jsLit :: "rat \<Rightarrow> rat" where
  "jsLit x = fl64 x"

definition jsAdd :: "rat \<Rightarrow> rat \<Rightarrow> rat" where
  "jsAdd a b = fl64 (a + b)"

definition jsSub :: "rat \<Rightarrow> rat \<Rightarrow> rat" where
  "jsSub a b = fl64 (a - b)"

definition jsMul :: "rat \<Rightarrow> rat \<Rightarrow> rat" where
  "jsMul a b = fl64 (a * b)"

text \<open>Division; every division of the program has a divisor that is checked or constant, never 0.\<close>

definition jsDiv :: "rat \<Rightarrow> rat \<Rightarrow> rat" where
  "jsDiv a b = fl64 (a / b)"

text \<open>\<open>Math.round\<close>: the nearest integer, a tie going up.\<close>

definition Math_round :: "rat \<Rightarrow> int" where
  "Math_round x = \<lfloor>x + 1 / 2\<rfloor>"

text \<open>A number that may be \<open>NaN\<close>, where the program can produce one.\<close>

datatype 'a orNaN = NaN | Num 'a

section \<open>Data model (types)\<close>

datatype PRSize = XS | S | M | L | XL | XXL

datatype PRState = Open | Closed | Merged

datatype ReviewState = APPROVED | CHANGES_REQUESTED | COMMENTED | DISMISSED | PENDING

record PRReview =
  reviewer :: string
  rv_state :: ReviewState
  submittedAt :: string

text \<open>
  \<open>Record<string, number>\<close> is an object whose string keys keep their insertion order:
  an association list. An optional field (\<open>languages?\<close>) is an \<open>option\<close>, \<open>None\<close> for
  \<open>undefined\<close>.
\<close>

type_synonym langmap = "(string \<times> int) list"

record PullRequest =
  pr_id :: int
  number :: int
  title :: string
  author :: string
  authorAvatar :: string
  state :: PRState
  createdAt :: string
  mergedAt :: "string option"
  closedAt :: "string option"
  additions :: int
  deletions :: int
  changedFiles :: int
  pr_size :: PRSize
  url :: string
  repo :: string
  languages :: "langmap option"
  reviewCount :: "int option"
  reviews :: "PRReview list option"
  complexity :: "int orNaN option"

section \<open>Size classification (lib/analyzer.ts)\<close>

definition combinedScore :: "int \<Rightarrow> int \<Rightarrow> int \<Rightarrow> rat" where
  "combinedScore adds dels filesChanged =
     (let linesChanged = adds + dels;
          lineScore = linesChanged;
          fileScore = filesChanged * 20
      in jsAdd (jsMul (of_int lineScore) (jsLit (7 / 10)))
               (jsMul (of_int fileScore) (jsLit (3 / 10))))"

definition calculatePRSize :: "int \<Rightarrow> int \<Rightarrow> int \<Rightarrow> PRSize" where
  "calculatePRSize adds dels filesChanged =
     (let combined = combinedScore adds dels filesChanged
      in if combined < 10 then XS
         else if combined < 50 then S
         else if combined < 200 then M
         else if combined < 500 then L
         else if combined < 1000 then XL
         else XXL)"

text \<open>
  The classification in the words of the specification: the score is the number
  \<open>0.7 * (additions + deletions) + 0.3 * (filesChanged * 20)\<close> itself, compared with the
  thresholds 10, 50, 200, 500 and 1000 by strict \<open><\<close>, the first match winning.
\<close>

definition combinedScore_spec :: "int \<Rightarrow> int \<Rightarrow> int \<Rightarrow> rat" where
  "combinedScore_spec adds dels filesChanged =
     7 / 10 * of_int (adds + dels) + 3 / 10 * of_int (filesChanged * 20)"

definition calculatePRSize_spec :: "int \<Rightarrow> int \<Rightarrow> int \<Rightarrow> PRSize" where
  "calculatePRSize_spec adds dels filesChanged =
     (let combined = combinedScore_spec adds dels filesChanged
      in if combined < 10 then XS
         else if combined < 50 then S
         else if combined < 200 then M
         else if combined < 500 then L
         else if combined < 1000 then XL
         else XXL)"

section \<open>Complexity score (lib/analyzer.ts)\<close>

definition LANGUAGE_COMPLEXITY_WEIGHTS :: "(string \<times> rat) list" where
  "LANGUAGE_COMPLEXITY_WEIGHTS =
    [(''C'', jsLit (15 / 10)), (''C++'', jsLit (15 / 10)), (''Rust'', jsLit (15 / 10)),
     (''Go'', jsLit (14 / 10)), (''Scala'', jsLit (14 / 10)), (''Haskell'', jsLit (15 / 10)),
     (''Java'', jsLit (12 / 10)), (''TypeScript'', jsLit (12 / 10)), (''C#'', jsLit (12 / 10)),
     (''Kotlin'', jsLit (12 / 10)), (''Swift'', jsLit (12 / 10)), (''F#'', jsLit (13 / 10)),
     (''JavaScript'', jsLit 1), (''Python'', jsLit 1), (''Ruby'', jsLit 1),
     (''PHP'', jsLit 1), (''Perl'', jsLit 1),
     (''Elixir'', jsLit (11 / 10)), (''Clojure'', jsLit (12 / 10)), (''Erlang'', jsLit (12 / 10)),
     (''Lua'', jsLit 1), (''R'', jsLit 1),
     (''HTML'', jsLit (5 / 10)), (''CSS'', jsLit (6 / 10)), (''SCSS'', jsLit (7 / 10)),
     (''LESS'', jsLit (7 / 10)),
     (''Markdown'', jsLit (3 / 10)), (''JSON'', jsLit (4 / 10)), (''YAML'', jsLit (4 / 10)),
     (''TOML'', jsLit (4 / 10)), (''XML'', jsLit (5 / 10)),
     (''Vue'', jsLit (11 / 10)), (''Svelte'', jsLit 1), (''Dart'', jsLit (11 / 10)),
     (''Shell'', jsLit (8 / 10)),
     (''SQL'', jsLit (9 / 10)),
     (''Other'', jsLit 1)]"

text \<open>
  The table is an object literal, so it inherits the properties of \<open>Object.prototype\<close>:
  a lookup of one of these names finds a function (for \<open>__proto__\<close> the prototype object
  itself), not \<open>undefined\<close>.
\<close>

definition Object_prototype :: "string list" where
  "Object_prototype =
    [''constructor'', ''__defineGetter__'', ''__defineSetter__'', ''hasOwnProperty'',
     ''__lookupGetter__'', ''__lookupSetter__'', ''isPrototypeOf'', ''propertyIsEnumerable'',
     ''toString'', ''valueOf'', ''__proto__'', ''toLocaleString'']"

text \<open>\<open>LANGUAGE_COMPLEXITY_WEIGHTS[lang] || 1.0\<close>: the weight of a language of the table (none
  is 0); an inherited property, which is truthy and is kept; the default for every other
  name.\<close>

datatype weightValue = Weight rat | Inherited

definition languageWeight :: "string \<Rightarrow> weightValue" where
  "languageWeight lang =
     (case map_of LANGUAGE_COMPLEXITY_WEIGHTS lang of
        Some w \<Rightarrow> Weight w
      | None \<Rightarrow> if lang \<in> set Object_prototype then Inherited else Weight (jsLit 1))"

text \<open>\<open>weight * percentage\<close>: the product with a function or an object is \<open>NaN\<close>.\<close>

definition weightTimes :: "weightValue \<Rightarrow> int \<Rightarrow> rat orNaN" where
  "weightTimes weight percentage =
     (case weight of Weight w \<Rightarrow> Num (jsMul w (of_int percentage)) | Inherited \<Rightarrow> NaN)"

text \<open>\<open>a + b\<close> on numbers that may be \<open>NaN\<close>.\<close>

definition nanAdd :: "rat orNaN \<Rightarrow> rat orNaN \<Rightarrow> rat orNaN" where
  "nanAdd a b = (case (a, b) of (Num x, Num y) \<Rightarrow> Num (jsAdd x y) | _ \<Rightarrow> NaN)"

text \<open>The loop over \<open>Object.entries(pr.languages)\<close>, on the pair (weightedSum, totalWeight).\<close>

fun weightLoop :: "langmap \<Rightarrow> rat orNaN \<times> int \<Rightarrow> rat orNaN \<times> int" where
  "weightLoop [] acc = acc"
| "weightLoop ((lang, percentage) # rest) (weightedSum, totalWeight) =
     weightLoop rest
       (nanAdd weightedSum (weightTimes (languageWeight lang) percentage),
        totalWeight + percentage)"

definition sizeScore :: "PullRequest \<Rightarrow> int" where
  "sizeScore pr =
     (let linesChanged = additions pr + deletions pr
      in if linesChanged \<le> 50 then 5
         else if linesChanged \<le> 200 then 15
         else if linesChanged \<le> 500 then 25
         else if linesChanged \<le> 1000 then 35
         else 40)"

definition fileScore :: "PullRequest \<Rightarrow> int" where
  "fileScore pr =
     (if changedFiles pr \<le> 2 then 5
      else if changedFiles pr \<le> 5 then 10
      else if changedFiles pr \<le> 10 then 15
      else if changedFiles pr \<le> 20 then 20
      else 25)"

text \<open>The language score for a weighted sum that is a number.\<close>

definition scaledLanguageScore :: "rat \<Rightarrow> int \<Rightarrow> int" where
  "scaledLanguageScore weightedSum totalWeight =
     (let avgWeight = jsDiv weightedSum (of_int totalWeight);
          score = Math_round
            (jsMul (jsDiv (jsSub avgWeight (jsLit (3 / 10))) (jsLit (12 / 10))) 20)
      in max 0 (min 20 score))"

text \<open>With a weighted sum that is \<open>NaN\<close>, the average, its rounding and both clamps are
  \<open>NaN\<close>.\<close>

definition languageScore :: "PullRequest \<Rightarrow> int orNaN" where
  "languageScore pr =
     (case languages pr of
        None \<Rightarrow> Num 10
      | Some langs \<Rightarrow>
          if length langs > 0 then
            (case weightLoop langs (Num 0, 0) of (weightedSum, totalWeight) \<Rightarrow>
               if totalWeight > 0 then
                 (case weightedSum of
                    Num ws \<Rightarrow> Num (scaledLanguageScore ws totalWeight)
                  | NaN \<Rightarrow> NaN)
               else Num 10)
          else Num 10)"

text \<open>\<open>pr.reviewCount || 0\<close>.\<close>

definition reviewCountOr0 :: "PullRequest \<Rightarrow> int" where
  "reviewCountOr0 pr = (case reviewCount pr of None \<Rightarrow> 0 | Some n \<Rightarrow> n)"

definition reviewScore :: "PullRequest \<Rightarrow> int" where
  "reviewScore pr =
     (let rc = reviewCountOr0 pr
      in if rc = 0 then 0
         else if rc \<le> 2 then 5
         else if rc \<le> 5 then 10
         else 15)"

text \<open>No language name of the record is the name of a property that the weight table
  inherits. Every record that the sync routes build is of this kind: its language names
  are taken from the extension tables or are \<open>Other\<close>.\<close>

definition plainLanguageNames :: "PullRequest \<Rightarrow> bool" where
  "plainLanguageNames pr =
     (case languages pr of
        None \<Rightarrow> True
      | Some langs \<Rightarrow> list_all (\<lambda>lang. lang \<notin> set Object_prototype) (map fst langs))"

text \<open>\<open>Math.min(100, Math.max(0, total))\<close>; a \<open>NaN\<close> language score makes the total and the
  result \<open>NaN\<close>.\<close>

definition calculateComplexity :: "PullRequest \<Rightarrow> int orNaN" where
  "calculateComplexity pr =
     (case languageScore pr of
        Num ls \<Rightarrow>
          (let total = sizeScore pr + fileScore pr + ls + reviewScore pr
           in Num (min 100 (max 0 total)))
      | NaN \<Rightarrow> NaN)"

section \<open>Strings\<close>

text \<open>Strings are ASCII byte lists; \<open>toLowerCase\<close> folds the letters A to Z.\<close>

definition toLowerChar :: "char \<Rightarrow> char" where
  "toLowerChar c =
     (case map_of (zip ''ABCDEFGHIJKLMNOPQRSTUVWXYZ'' ''abcdefghijklmnopqrstuvwxyz'') c of
        Some l \<Rightarrow> l | None \<Rightarrow> c)"

definition toLowerCase :: "string \<Rightarrow> string" where
  "toLowerCase s = map toLowerChar s"

text \<open>\<open>s.split(sep)\<close> for a one-character separator; the result is never empty.\<close>

fun splitOn :: "char \<Rightarrow> string \<Rightarrow> string list" where
  "splitOn sep [] = [[]]"
| "splitOn sep (c # cs) =
     (if c = sep then [] # splitOn sep cs
      else (case splitOn sep cs of w # ws \<Rightarrow> (c # w) # ws | [] \<Rightarrow> [[c]]))"

text \<open>\<open>s.includes(pat)\<close>.\<close>

fun stringIncludes :: "string \<Rightarrow> string \<Rightarrow> bool" where
  "stringIncludes [] pat = (pat = [])"
| "stringIncludes (c # cs) pat = (take (length pat) (c # cs) = pat \<or> stringIncludes cs pat)"

text \<open>\<open>s.startsWith(pat)\<close>.\<close>

definition startsWith :: "string \<Rightarrow> string \<Rightarrow> bool" where
  "startsWith s pat = (take (length pat) s = pat)"

text \<open>\<open>s.substring(0, n)\<close>.\<close>

definition substring0 :: "string \<Rightarrow> nat \<Rightarrow> string" where
  "substring0 s n = take n s"

definition digitChars :: string where
  "digitChars = ''0123456789''"

definition isDigit :: "char \<Rightarrow> bool" where
  "isDigit c = (c \<in> set digitChars)"

definition digitVal :: "char \<Rightarrow> int option" where
  "digitVal c = map_of (zip digitChars [0, 1, 2, 3, 4, 5, 6, 7, 8, 9]) c"

fun digitsVal :: "string \<Rightarrow> int \<Rightarrow> int option" where
  "digitsVal [] acc = Some acc"
| "digitsVal (c # cs) acc =
     (case digitVal c of None \<Rightarrow> None | Some v \<Rightarrow> digitsVal cs (acc * 10 + v))"

text \<open>The value of a non-empty string of decimal digits.\<close>

definition parseDigits :: "string \<Rightarrow> int option" where
  "parseDigits s = (if s = [] then None else digitsVal s 0)"

definition digitChar :: "int \<Rightarrow> char" where
  "digitChar v = digitChars ! nat (v mod 10)"

function showNat :: "int \<Rightarrow> string" where
  "showNat n = (if n < 10 then [digitChar n] else showNat (n div 10) @ [digitChar n])"
  by pat_completeness auto
termination
  by (relation "measure nat") auto

declare showNat.simps [simp del]

definition padStart :: "nat \<Rightarrow> string \<Rightarrow> string" where
  "padStart w s = replicate (w - length s) (CHR ''0'') @ s"

section \<open>Dates\<close>

text \<open>
  A \<open>Date\<close> is its time value: milliseconds since 1970-01-01T00:00:00Z, an \<open>int\<close>; an
  invalid date is \<open>None\<close>. The process runs in UTC, so local calendar fields are UTC
  fields. The calendar is the proleptic Gregorian one, by the usual era arithmetic.
\<close>

text \<open>The steps of \<open>civil_from_days\<close>, each taking the values computed before it.\<close>

definition civil_ymd :: "int \<Rightarrow> int \<Rightarrow> int \<Rightarrow> int \<times> int \<times> int" where
  "civil_ymd y m d = (if m \<le> 2 then y + 1 else y, m, d)"

definition civil_mp :: "int \<Rightarrow> int \<Rightarrow> int \<Rightarrow> int \<times> int \<times> int" where
  "civil_mp y doy mp =
     civil_ymd y (if mp < 10 then mp + 3 else mp - 9) (doy - (153 * mp + 2) div 5 + 1)"

definition civil_doy :: "int \<Rightarrow> int \<Rightarrow> int \<times> int \<times> int" where
  "civil_doy y doy = civil_mp y doy ((5 * doy + 2) div 153)"

definition civil_yoe :: "int \<Rightarrow> int \<Rightarrow> int \<Rightarrow> int \<times> int \<times> int" where
  "civil_yoe era doe yoe =
     civil_doy (yoe + era * 400) (doe - (365 * yoe + yoe div 4 - yoe div 100))"

definition civil_doe :: "int \<Rightarrow> int \<Rightarrow> int \<times> int \<times> int" where
  "civil_doe era doe =
     civil_yoe era doe ((doe - doe div 1460 + doe div 36524 - doe div 146096) div 365)"

definition civil_era :: "int \<Rightarrow> int \<Rightarrow> int \<times> int \<times> int" where
  "civil_era z era = civil_doe era (z - era * 146097)"

text \<open>Year, month and day of a day number (days since 1970-01-01).\<close>

definition civil_from_days :: "int \<Rightarrow> int \<times> int \<times> int" where
  "civil_from_days z0 = civil_era (z0 + 719468) ((z0 + 719468) div 146097)"

definition days_doe :: "int \<Rightarrow> int \<Rightarrow> int \<Rightarrow> int" where
  "days_doe era yoe doy = era * 146097 + (yoe * 365 + yoe div 4 - yoe div 100 + doy) - 719468"

definition days_era :: "int \<Rightarrow> int \<Rightarrow> int \<Rightarrow> int \<Rightarrow> int" where
  "days_era y era m d =
     days_doe era (y - era * 400) ((153 * (if m > 2 then m - 3 else m + 9) + 2) div 5 + d - 1)"

definition days_year :: "int \<Rightarrow> int \<Rightarrow> int \<Rightarrow> int" where
  "days_year y m d = days_era y (y div 400) m d"

text \<open>The day number of a year, month and day.\<close>

definition days_from_civil :: "int \<Rightarrow> int \<Rightarrow> int \<Rightarrow> int" where
  "days_from_civil y0 m d = days_year (if m \<le> 2 then y0 - 1 else y0) m d"

definition MS_PER_DAY :: int where
  "MS_PER_DAY = 86400000"

definition dayOf :: "int \<Rightarrow> int" where
  "dayOf t = t div MS_PER_DAY"

definition daysInMonth :: "int \<Rightarrow> int \<Rightarrow> int" where
  "daysInMonth y m =
     days_from_civil (if m = 12 then y + 1 else y) (if m = 12 then 1 else m + 1) 1
       - days_from_civil y m 1"

text \<open>
  Timestamps are ISO 8601 date-times with seconds, an optional fraction of one to three
  digits, and a zone that is \<open>Z\<close> or an offset: \<open>YYYY-MM-DDTHH:MM:SS[.f]Z\<close> and
  \<open>YYYY-MM-DDTHH:MM:SS[.f]+HH:MM\<close> (or \<open>-HH:MM\<close>), with a day that exists in its month. The hosting API
  produces the first form without a fraction. On these strings \<open>new Date(s)\<close> and date-fns
  \<open>parseISO(s)\<close> give the same time value. \<open>None\<close> stands for every other string: the two
  parsers reject most of them as invalid dates, but each also reads further forms (dates
  without a time, local times, free text) that are not modelled; what is stated about
  timestamps below is stated for strings of these forms, for which the result is \<open>Some\<close>.
\<close>

text \<open>An optional fraction \<open>.f\<close>, \<open>.ff\<close> or \<open>.fff\<close> in front of the zone: its milliseconds
  and the rest of the string.\<close>

definition parseFraction :: "string \<Rightarrow> (int \<times> string) option" where
  "parseFraction s =
     (case s of
        [] \<Rightarrow> Some (0, s)
      | c # cs \<Rightarrow>
          if c = CHR ''.'' then
            (let ds = takeWhile isDigit cs
             in if 1 \<le> length ds \<and> length ds \<le> 3
                then (case parseDigits (ds @ replicate (3 - length ds) (CHR ''0'')) of
                        Some ms \<Rightarrow> Some (ms, dropWhile isDigit cs)
                      | None \<Rightarrow> None)
                else None)
          else Some (0, s))"

text \<open>The zone: the milliseconds to add to the local reading to get UTC.\<close>

definition parseZone :: "string \<Rightarrow> int option" where
  "parseZone z =
     (if z = ''Z'' then Some 0
      else if length z = 6 \<and> (z ! 0 = CHR ''+'' \<or> z ! 0 = CHR ''-'') \<and> z ! 3 = CHR '':'' then
        (case (parseDigits (take 2 (drop 1 z)), parseDigits (take 2 (drop 4 z))) of
           (Some h, Some mi) \<Rightarrow>
             if h \<le> 23 \<and> mi \<le> 59
             then Some ((if z ! 0 = CHR ''+'' then - 1 else 1) * ((h * 60 + mi) * 60000))
             else None
         | _ \<Rightarrow> None)
      else None)"

text \<open>The date and time \<open>YYYY-MM-DDTHH:MM:SS\<close> in the first 19 characters, read as UTC.\<close>

definition parseDateTime :: "string \<Rightarrow> int option" where
  "parseDateTime s =
     (if length s = 19 \<and> s ! 4 = CHR ''-'' \<and> s ! 7 = CHR ''-'' \<and> s ! 10 = CHR ''T''
         \<and> s ! 13 = CHR '':'' \<and> s ! 16 = CHR '':'' then
        (case (parseDigits (take 4 s), parseDigits (take 2 (drop 5 s)),
               parseDigits (take 2 (drop 8 s)), parseDigits (take 2 (drop 11 s)),
               parseDigits (take 2 (drop 14 s)), parseDigits (take 2 (drop 17 s))) of
           (Some y, Some mo, Some d, Some h, Some mi, Some sec) \<Rightarrow>
             if 1 \<le> mo \<and> mo \<le> 12 \<and> 1 \<le> d \<and> d \<le> daysInMonth y mo
                \<and> h \<le> 23 \<and> mi \<le> 59 \<and> sec \<le> 59
             then Some ((((days_from_civil y mo d * 24 + h) * 60 + mi) * 60 + sec) * 1000)
             else None
         | _ \<Rightarrow> None)
      else None)"

text \<open>\<open>new Date(s)\<close> on a timestamp.\<close>

definition Date_parse :: "string \<Rightarrow> int option" where
  "Date_parse s =
     (case parseDateTime (take 19 s) of
        None \<Rightarrow> None
      | Some t \<Rightarrow>
          (case parseFraction (drop 19 s) of
             None \<Rightarrow> None
           | Some (ms, zone) \<Rightarrow>
               (case parseZone zone of
                  None \<Rightarrow> None
                | Some offset \<Rightarrow> Some (t + ms + offset))))"

text \<open>date-fns \<open>parseISO(s)\<close> on a timestamp.\<close>

definition parseISO :: "string \<Rightarrow> int option" where
  "parseISO s = Date_parse s"

text \<open>date-fns \<open>format(date, 'yyyy-MM-dd')\<close> and \<open>format(date, 'yyyy-MM')\<close>.\<close>

datatype formatStr = yyyy_MM_dd | yyyy_MM

definition format :: "int \<Rightarrow> formatStr \<Rightarrow> string" where
  "format t f = (case civil_from_days (dayOf t) of (y, m, d) \<Rightarrow>
     (case f of
        yyyy_MM_dd \<Rightarrow>
          padStart 4 (showNat y) @ ''-'' @ padStart 2 (showNat m) @ ''-'' @ padStart 2 (showNat d)
      | yyyy_MM \<Rightarrow> padStart 4 (showNat y) @ ''-'' @ padStart 2 (showNat m)))"

text \<open>\<open>differenceInDays(later, earlier)\<close>: full days between, truncated towards 0.\<close>

definition differenceInDays :: "int \<Rightarrow> int \<Rightarrow> int" where
  "differenceInDays dateLeft dateRight =
     (if dateRight \<le> dateLeft then (dateLeft - dateRight) div MS_PER_DAY
      else - ((dateRight - dateLeft) div MS_PER_DAY))"

datatype jsError = RangeError | Thrown string

text \<open>
  \<open>eachDayOfInterval\<close>, \<open>eachWeekOfInterval\<close> (weeks start on Sunday) and
  \<open>eachMonthOfInterval\<close>: the start of every day, week and month from the one that
  holds \<open>start\<close> to the one that holds \<open>end\<close>; an interval that ends before it starts
  is a \<open>RangeError\<close>.
\<close>

definition eachDayOfInterval :: "int \<Rightarrow> int \<Rightarrow> jsError + int list" where
  "eachDayOfInterval start end =
     (if \<not> start \<le> end then Inl RangeError
      else Inr (map (\<lambda>d. d * MS_PER_DAY) [dayOf start..dayOf end]))"

definition startOfWeekDay :: "int \<Rightarrow> int" where
  "startOfWeekDay t = dayOf t - (dayOf t + 4) mod 7"

definition eachWeekOfInterval :: "int \<Rightarrow> int \<Rightarrow> jsError + int list" where
  "eachWeekOfInterval start end =
     (if \<not> start \<le> end then Inl RangeError
      else Inr (map (\<lambda>w. (startOfWeekDay start + 7 * w) * MS_PER_DAY)
                  [0..(startOfWeekDay end - startOfWeekDay start) div 7]))"

definition monthIndex :: "int \<Rightarrow> int" where
  "monthIndex t = (case civil_from_days (dayOf t) of (y, m, d) \<Rightarrow> y * 12 + (m - 1))"

definition eachMonthOfInterval :: "int \<Rightarrow> int \<Rightarrow> jsError + int list" where
  "eachMonthOfInterval start end =
     (if \<not> start \<le> end then Inl RangeError
      else Inr (map (\<lambda>i. days_from_civil (i div 12) (i mod 12 + 1) 1 * MS_PER_DAY)
                  [monthIndex start..monthIndex end]))"

section \<open>Sync: records of the hosting API and their conversion (api/sync)\<close>

record GraphQLFileNode =
  path :: string
  f_additions :: int
  f_deletions :: int

text \<open>\<open>rn_author\<close> is the login of \<open>author\<close>, \<open>None\<close> for a null author.\<close>

record GraphQLReviewNode =
  rn_author :: "string option"
  rn_state :: ReviewState
  rn_submittedAt :: string

datatype GraphQLState = OPEN | CLOSED | MERGED

text \<open>\<open>n_author\<close> is (login, avatarUrl); \<open>n_files\<close> and \<open>n_reviews\<close> are the \<open>nodes\<close> of
  \<open>files\<close> and \<open>reviews\<close> (empty when absent), \<open>n_totalCount\<close> is \<open>reviews.totalCount\<close>.\<close>

record GraphQLPRNode =
  n_id :: string
  n_number :: int
  n_title :: string
  n_state :: GraphQLState
  n_createdAt :: string
  n_updatedAt :: string
  n_mergedAt :: "string option"
  n_closedAt :: "string option"
  n_additions :: int
  n_deletions :: int
  n_changedFiles :: int
  n_url :: string
  n_author :: "(string \<times> string) option"
  n_files :: "GraphQLFileNode list"
  n_totalCount :: int
  n_reviews :: "GraphQLReviewNode list"

text \<open>The extension table of the JSON route (api/sync/route.ts).\<close>

definition EXTENSION_TO_LANGUAGE :: "(string \<times> string) list" where
  "EXTENSION_TO_LANGUAGE =
    [(''.js'', ''JavaScript''), (''.jsx'', ''JavaScript''), (''.mjs'', ''JavaScript''),
     (''.cjs'', ''JavaScript''),
     (''.ts'', ''TypeScript''), (''.tsx'', ''TypeScript''), (''.mts'', ''TypeScript''),
     (''.cts'', ''TypeScript''),
     (''.py'', ''Python''), (''.pyw'', ''Python''), (''.pyi'', ''Python''),
     (''.java'', ''Java''), (''.kt'', ''Kotlin''), (''.kts'', ''Kotlin''),
     (''.c'', ''C''), (''.h'', ''C''), (''.cpp'', ''C++''), (''.cc'', ''C++''),
     (''.cxx'', ''C++''), (''.hpp'', ''C++''), (''.hxx'', ''C++''),
     (''.cs'', ''C#''),
     (''.go'', ''Go''),
     (''.rs'', ''Rust''),
     (''.rb'', ''Ruby''), (''.erb'', ''Ruby''),
     (''.php'', ''PHP''),
     (''.swift'', ''Swift''),
     (''.scala'', ''Scala''), (''.sc'', ''Scala''),
     (''.sh'', ''Shell''), (''.bash'', ''Shell''), (''.zsh'', ''Shell''),
     (''.sql'', ''SQL''),
     (''.html'', ''HTML''), (''.htm'', ''HTML''), (''.css'', ''CSS''), (''.scss'', ''SCSS''),
     (''.sass'', ''SCSS''), (''.less'', ''LESS''),
     (''.md'', ''Markdown''), (''.mdx'', ''Markdown''), (''.rst'', ''reStructuredText''),
     (''.json'', ''JSON''), (''.yaml'', ''YAML''), (''.yml'', ''YAML''), (''.toml'', ''TOML''),
     (''.xml'', ''XML''),
     (''.vue'', ''Vue''), (''.svelte'', ''Svelte''), (''.dart'', ''Dart''), (''.r'', ''R''),
     (''.R'', ''R''),
     (''.lua'', ''Lua''), (''.pl'', ''Perl''), (''.pm'', ''Perl''), (''.ex'', ''Elixir''),
     (''.exs'', ''Elixir''),
     (''.erl'', ''Erlang''), (''.hrl'', ''Erlang''), (''.clj'', ''Clojure''),
     (''.cljs'', ''Clojure''),
     (''.hs'', ''Haskell''), (''.ml'', ''OCaml''), (''.fs'', ''F#''), (''.fsx'', ''F#'')]"

text \<open>The extension table of the streaming route.\<close>

definition EXTENSION_TO_LANGUAGE_stream :: "(string \<times> string) list" where
  "EXTENSION_TO_LANGUAGE_stream =
    [(''.js'', ''JavaScript''), (''.jsx'', ''JavaScript''), (''.mjs'', ''JavaScript''),
     (''.cjs'', ''JavaScript''),
     (''.ts'', ''TypeScript''), (''.tsx'', ''TypeScript''), (''.mts'', ''TypeScript''),
     (''.cts'', ''TypeScript''),
     (''.py'', ''Python''), (''.pyw'', ''Python''), (''.pyi'', ''Python''),
     (''.java'', ''Java''), (''.kt'', ''Kotlin''), (''.kts'', ''Kotlin''),
     (''.c'', ''C''), (''.h'', ''C''), (''.cpp'', ''C++''), (''.cc'', ''C++''),
     (''.cxx'', ''C++''), (''.hpp'', ''C++''),
     (''.cs'', ''C#''), (''.go'', ''Go''), (''.rs'', ''Rust''),
     (''.rb'', ''Ruby''), (''.erb'', ''Ruby''), (''.php'', ''PHP''),
     (''.swift'', ''Swift''), (''.scala'', ''Scala''), (''.sc'', ''Scala''),
     (''.sh'', ''Shell''), (''.bash'', ''Shell''), (''.zsh'', ''Shell''),
     (''.sql'', ''SQL''),
     (''.html'', ''HTML''), (''.htm'', ''HTML''), (''.css'', ''CSS''), (''.scss'', ''SCSS''),
     (''.sass'', ''SCSS''),
     (''.md'', ''Markdown''), (''.mdx'', ''Markdown''),
     (''.json'', ''JSON''), (''.yaml'', ''YAML''), (''.yml'', ''YAML''), (''.toml'', ''TOML''),
     (''.xml'', ''XML''),
     (''.vue'', ''Vue''), (''.svelte'', ''Svelte''), (''.dart'', ''Dart'')]"

text \<open>\<open>getLanguageFromPath\<close>, over the table of the route it is in. No language name
  of a table is empty, so \<open>|| 'Other'\<close> is taken exactly for a missing extension; the
  key starts with a dot, so it is never the name of an inherited property.\<close>

definition getLanguageFromPath :: "(string \<times> string) list \<Rightarrow> string \<Rightarrow> string" where
  "getLanguageFromPath table p =
     (let ext = ''.'' @ toLowerCase (case rev (splitOn (CHR ''.'') p) of w # _ \<Rightarrow> w | [] \<Rightarrow> [])
      in case map_of table ext of Some language \<Rightarrow> language | None \<Rightarrow> ''Other'')"

text \<open>\<open>obj[key] = (obj[key] || 0) + lines\<close> on an object in insertion order, for a key that
  is not the name of an inherited property (the language of a file never is).\<close>

fun addLines :: "string \<Rightarrow> int \<Rightarrow> langmap \<Rightarrow> langmap" where
  "addLines key lines [] = [(key, 0 + lines)]"
| "addLines key lines ((k, v) # rest) =
     (if k = key then (k, v + lines) # rest else (k, v) # addLines key lines rest)"

text \<open>The language breakdown of one pull request (the two loops of the sync routes):
  changed lines per language, then the percentage of each entry.\<close>

definition fileLines :: "GraphQLFileNode \<Rightarrow> int" where
  "fileLines file = f_additions file + f_deletions file"

definition fileLanguageLines :: "(string \<times> string) list \<Rightarrow> GraphQLFileNode list \<Rightarrow> langmap" where
  "fileLanguageLines table files =
     fold (\<lambda>file languageLines.
             addLines (getLanguageFromPath table (path file)) (fileLines file) languageLines)
          files []"

definition toPercent :: "int \<Rightarrow> int \<Rightarrow> int" where
  "toPercent lines totalLines = Math_round (jsMul (jsDiv (of_int lines) (of_int totalLines)) 100)"

definition languagesOfFiles :: "(string \<times> string) list \<Rightarrow> GraphQLFileNode list \<Rightarrow> langmap" where
  "languagesOfFiles table files =
     (let languageLines = fileLanguageLines table files;
          totalLines = sum_list (map snd languageLines)
      in map (\<lambda>(lang, lines). (lang, if totalLines > 0 then toPercent lines totalLines else 0))
             languageLines)"

text \<open>\<open>parseInt(pr.id.replace(/\D/g, '').slice(-10)) || pr.number\<close>.\<close>

definition nodeNumericId :: "GraphQLPRNode \<Rightarrow> int" where
  "nodeNumericId pr =
     (let digits = filter isDigit (n_id pr);
          last10 = drop (length digits - 10) digits
      in case parseDigits last10 of
           None \<Rightarrow> n_number pr
         | Some v \<Rightarrow> if v = 0 then n_number pr else v)"

definition toReviews :: "GraphQLReviewNode list \<Rightarrow> PRReview list" where
  "toReviews rs =
     map (\<lambda>review. \<lparr>reviewer = (case rn_author review of Some login \<Rightarrow> login | None \<Rightarrow> []),
                     rv_state = rn_state review, submittedAt = rn_submittedAt review\<rparr>)
         (filter (\<lambda>review. case rn_author review of Some login \<Rightarrow> login \<noteq> [] | None \<Rightarrow> False) rs)"

text \<open>The record pushed for one fetched node.\<close>

definition toPullRequest :: "(string \<times> string) list \<Rightarrow> string \<Rightarrow> GraphQLPRNode \<Rightarrow> PullRequest" where
  "toPullRequest table repoPath pr =
     (let sz = calculatePRSize (n_additions pr) (n_deletions pr) (n_changedFiles pr);
          st = (if n_state pr = MERGED then Merged
                else if n_state pr = CLOSED then Closed else Open);
          langs = languagesOfFiles table (n_files pr);
          revs = toReviews (n_reviews pr)
      in \<lparr>pr_id = nodeNumericId pr,
          number = n_number pr,
          title = n_title pr,
          author = (case n_author pr of
                      Some (login, avatarUrl) \<Rightarrow> if login = [] then ''unknown'' else login
                    | None \<Rightarrow> ''unknown''),
          authorAvatar = (case n_author pr of Some (login, avatarUrl) \<Rightarrow> avatarUrl | None \<Rightarrow> []),
          state = st,
          createdAt = n_createdAt pr,
          mergedAt = n_mergedAt pr,
          closedAt = n_closedAt pr,
          additions = n_additions pr,
          deletions = n_deletions pr,
          changedFiles = n_changedFiles pr,
          pr_size = sz,
          url = n_url pr,
          repo = repoPath,
          languages = Some langs,
          reviewCount = Some (n_totalCount pr),
          reviews = (if length revs > 0 then Some revs else None),
          complexity = None\<rparr>)"

section \<open>Persistence (lib/database.ts)\<close>

text \<open>
  A row of table \<open>pull_requests\<close>. Timestamps are kept as time values: the text the
  code stores is \<open>toISOString()\<close> of a valid date and \<open>new Date\<close> reads it back to the
  same value. \<open>languages\<close> and \<open>reviews\<close> are kept as the values whose JSON text is
  stored (\<open>None\<close> for SQL NULL): \<open>JSON.parse\<close> returns what \<open>JSON.stringify\<close> was given.
\<close>

record Row =
  col_id :: int
  col_number :: int
  col_repo :: string
  col_title :: string
  col_author :: string
  col_author_avatar :: string
  col_state :: PRState
  col_created_at :: string
  col_merged_at :: "string option"
  col_closed_at :: "string option"
  col_additions :: int
  col_deletions :: int
  col_changed_files :: int
  col_size :: PRSize
  col_url :: string
  col_updated_at :: int
  col_languages :: "langmap option"
  col_review_count :: int
  col_reviews :: "PRReview list option"

record SyncStatusRow =
  s_repo :: string
  last_synced_at :: int
  pr_count :: int

text \<open>
  The database file with the process's wall clock: \<open>clockReads\<close> counts the readings
  taken so far, and the k-th reading (\<open>new Date()\<close>, \<open>Date.now()\<close>) is \<open>clock k\<close> for a
  function \<open>clock\<close> that the operations take as a parameter.
\<close>

record Store =
  pull_requests :: "Row list"
  sync_status :: "SyncStatusRow list"
  clockReads :: nat

text \<open>
  \<open>INSERT OR REPLACE\<close> on a table with \<open>id INTEGER PRIMARY KEY\<close> and
  \<open>UNIQUE(repo, number)\<close>: every row that conflicts with the new one on either
  constraint is deleted, then the new row is inserted.
\<close>

text \<open>The pair that \<open>UNIQUE(repo, number)\<close> constrains.\<close>

definition rowKey :: "Row \<Rightarrow> string \<times> int" where
  "rowKey row = (col_repo row, col_number row)"

definition conflicts :: "Row \<Rightarrow> Row \<Rightarrow> bool" where
  "conflicts new old =
     (col_id old = col_id new \<or> (col_repo old = col_repo new \<and> col_number old = col_number new))"

definition insertOrReplace :: "Row \<Rightarrow> Row list \<Rightarrow> Row list" where
  "insertOrReplace new rows = filter (\<lambda>old. \<not> conflicts new old) rows @ [new]"

text \<open>The values bound by \<open>stmt.run\<close>; \<open>now\<close> is \<open>new Date()\<close>.\<close>

definition toRow :: "int \<Rightarrow> PullRequest \<Rightarrow> Row" where
  "toRow now pr =
     \<lparr>col_id = pr_id pr, col_number = number pr, col_repo = repo pr, col_title = title pr,
      col_author = author pr, col_author_avatar = authorAvatar pr, col_state = state pr,
      col_created_at = createdAt pr, col_merged_at = mergedAt pr, col_closed_at = closedAt pr,
      col_additions = additions pr, col_deletions = deletions pr,
      col_changed_files = changedFiles pr, col_size = pr_size pr, col_url = url pr,
      col_updated_at = now, col_languages = languages pr,
      col_review_count = reviewCountOr0 pr,
      col_reviews = reviews pr\<rparr>"

definition savePullRequest :: "(nat \<Rightarrow> int) \<Rightarrow> PullRequest \<Rightarrow> Store \<Rightarrow> Store" where
  "savePullRequest clock pr st =
     st\<lparr>pull_requests := insertOrReplace (toRow (clock (clockReads st)) pr) (pull_requests st),
        clockReads := Suc (clockReads st)\<rparr>"

text \<open>The transaction runs the same statement for every record, in order.\<close>

definition savePullRequests :: "(nat \<Rightarrow> int) \<Rightarrow> PullRequest list \<Rightarrow> Store \<Rightarrow> Store" where
  "savePullRequests clock prs st = fold (savePullRequest clock) prs st"

text \<open>The record \<open>getPullRequests\<close> builds from a row.\<close>

definition fromRow :: "Row \<Rightarrow> PullRequest" where
  "fromRow row =
     \<lparr>pr_id = col_id row, number = col_number row, title = col_title row,
      author = col_author row, authorAvatar = col_author_avatar row, state = col_state row,
      createdAt = col_created_at row, mergedAt = col_merged_at row,
      closedAt = col_closed_at row, additions = col_additions row,
      deletions = col_deletions row, changedFiles = col_changed_files row,
      pr_size = col_size row, url = col_url row, repo = col_repo row,
      languages = col_languages row, reviewCount = Some (col_review_count row),
      reviews = col_reviews row, complexity = None\<rparr>"

text \<open>Rows of the given repositories whose bookkeeping timestamp lies in the window,
  latest first. SQL leaves the order of rows with equal timestamps open; the engine scans
  the table by rowid, which is \<open>id\<close>, and its sort keeps that order among equal keys.\<close>

definition getPullRequests :: "string list \<Rightarrow> int \<Rightarrow> int \<Rightarrow> Store \<Rightarrow> PullRequest list" where
  "getPullRequests repos since until st =
     map fromRow
       (sort_key (\<lambda>row. - col_updated_at row)
          (filter (\<lambda>row. col_repo row \<in> set repos
                          \<and> since \<le> col_updated_at row \<and> col_updated_at row \<le> until)
                  (sort_key col_id (pull_requests st))))"

text \<open>What a reader gets back for one key: \<open>SELECT * FROM pull_requests WHERE repo = ? AND
  number = ?\<close>, mapped as \<open>getPullRequests\<close> maps its rows.\<close>

definition rowsFor :: "string \<Rightarrow> int \<Rightarrow> Store \<Rightarrow> Row list" where
  "rowsFor r n st = filter (\<lambda>row. col_repo row = r \<and> col_number row = n) (pull_requests st)"

definition readBack :: "string \<Rightarrow> int \<Rightarrow> Store \<Rightarrow> PullRequest list" where
  "readBack r n st = map fromRow (rowsFor r n st)"

definition getLastSyncedAt :: "string \<Rightarrow> Store \<Rightarrow> int option" where
  "getLastSyncedAt r st =
     (case find (\<lambda>row. s_repo row = r) (sync_status st) of
        Some row \<Rightarrow> Some (last_synced_at row) | None \<Rightarrow> None)"

definition updateSyncStatus :: "(nat \<Rightarrow> int) \<Rightarrow> string \<Rightarrow> int \<Rightarrow> Store \<Rightarrow> Store" where
  "updateSyncStatus clock r prCount st =
     st\<lparr>sync_status := filter (\<lambda>row. s_repo row \<noteq> r) (sync_status st)
                          @ [\<lparr>s_repo = r, last_synced_at = clock (clockReads st),
                               pr_count = prCount\<rparr>],
        clockReads := Suc (clockReads st)\<rparr>"

definition getTotalCachedPRs :: "Store \<Rightarrow> int" where
  "getTotalCachedPRs st = int (length (pull_requests st))"

section \<open>Sync engine (api/sync/route.ts and the streaming route)\<close>

record GraphQLResponse =
  hasNextPage :: bool
  endCursor :: string
  nodes :: "GraphQLPRNode list"

text \<open>
  The hosting API: \<open>octokit.graphql(PR_QUERY, {owner, repo, cursor})\<close> either throws
  (\<open>Inl\<close> of the message the \<open>catch\<close> block reads) or returns a page.
\<close>

type_synonym source = "string \<Rightarrow> string \<Rightarrow> string option \<Rightarrow> string + GraphQLResponse"

text \<open>\<open>new Date('2025-07-01T00:00:00Z')\<close>.\<close>

definition SYNC_CUTOFF_DATE :: int where
  "SYNC_CUTOFF_DATE = 1751328000000"

definition cutoffDateFor :: "bool \<Rightarrow> string \<Rightarrow> Store \<Rightarrow> int" where
  "cutoffDateFor fullSync repoPath st =
     (if fullSync then SYNC_CUTOFF_DATE
      else (case getLastSyncedAt repoPath st of
              Some lastSynced \<Rightarrow> lastSynced - 24 * 60 * 60 * 1000
            | None \<Rightarrow> SYNC_CUTOFF_DATE))"

text \<open>\<open>new Date(pr.updatedAt) < cutoffDate\<close>; a comparison with an invalid date is false.\<close>

definition olderThan :: "GraphQLPRNode \<Rightarrow> int \<Rightarrow> bool" where
  "olderThan pr cutoffDate =
     (case Date_parse (n_updatedAt pr) of Some t \<Rightarrow> t < cutoffDate | None \<Rightarrow> False)"

text \<open>The \<open>for\<close> loop over the nodes of one page: the records so far and \<open>shouldStop\<close>.\<close>

fun processNodes ::
  "(string \<times> string) list \<Rightarrow> int \<Rightarrow> string \<Rightarrow> GraphQLPRNode list \<Rightarrow> PullRequest list
     \<Rightarrow> PullRequest list \<times> bool" where
  "processNodes table cutoffDate repoPath [] pullRequests = (pullRequests, False)"
| "processNodes table cutoffDate repoPath (pr # rest) pullRequests =
     (if olderThan pr cutoffDate then (pullRequests, True)
      else processNodes table cutoffDate repoPath rest
             (pullRequests @ [toPullRequest table repoPath pr]))"

text \<open>
  The \<open>while (!shouldStop)\<close> loop. \<open>requests\<close> lists the cursors asked for, in order;
  \<open>progress\<close> lists the record counts reported after each page that is followed by
  another request. The loop ends with the thrown message or the records; it need not
  end when the source always announces a next page.
\<close>

partial_function (option) fetchLoop ::
  "(string option \<Rightarrow> string + GraphQLResponse) \<Rightarrow> (string \<times> string) list \<Rightarrow> int \<Rightarrow> string
     \<Rightarrow> string option \<Rightarrow> PullRequest list \<Rightarrow> string option list \<Rightarrow> nat list
     \<Rightarrow> ((string + PullRequest list) \<times> string option list \<times> nat list) option" where
  "fetchLoop graphql table cutoffDate repoPath cursor pullRequests requests progress =
     (case graphql cursor of
        Inl message \<Rightarrow> Some (Inl message, requests @ [cursor], progress)
      | Inr response \<Rightarrow>
          (case processNodes table cutoffDate repoPath (nodes response) pullRequests of
             (pullRequests', shouldStop) \<Rightarrow>
               if \<not> hasNextPage response \<or> shouldStop
               then Some (Inr pullRequests', requests @ [cursor], progress)
               else fetchLoop graphql table cutoffDate repoPath (Some (endCursor response))
                      pullRequests' (requests @ [cursor])
                      (progress @ [length pullRequests'])))"

text \<open>
  The body of the \<open>try\<close> block for one repository: the cutoff, the pages, the batch
  upsert and the sync-status row. A thrown request leaves the store as it was.
\<close>

definition syncRepository ::
  "source \<Rightarrow> (string \<times> string) list \<Rightarrow> (nat \<Rightarrow> int) \<Rightarrow> bool \<Rightarrow> string \<Rightarrow> string \<Rightarrow> string
     \<Rightarrow> Store \<Rightarrow> ((string + nat) \<times> Store \<times> string option list \<times> nat list) option" where
  "syncRepository src table clock fullSync repoPath owner rname st =
     (let cutoffDate = cutoffDateFor fullSync repoPath st
      in case fetchLoop (src owner rname) table cutoffDate repoPath None [] [] [] of
           None \<Rightarrow> None
         | Some (Inl message, requests, progress) \<Rightarrow> Some (Inl message, st, requests, progress)
         | Some (Inr pullRequests, requests, progress) \<Rightarrow>
             (let st1 = (if length pullRequests > 0
                         then savePullRequests clock pullRequests st else st);
                  st2 = updateSyncStatus clock repoPath (int (length pullRequests)) st1
              in Some (Inr (length pullRequests), st2, requests, progress)))"

text \<open>
  Notions used to state the cutoff and the early exit. \<open>pagesFrom graphql cursor pages\<close>:
  the source answers the request at \<open>cursor\<close> and the requests at the end cursors of the
  pages before with \<open>pages\<close>, in order. A page is stale when it holds a record older than
  the cutoff, and it is the last page of a run when it is stale or announces no next
  page. \<open>servedNodes\<close> are the nodes of pages in the order served, \<open>keptNodes\<close> those before
  the first one older than the cutoff. \<open>cursorsFrom\<close> are the cursors requested for pages
  and \<open>progressFrom\<close> the record counts reported after each of them. A page is
  timestamped when the \<open>updatedAt\<close> of each node is a timestamp.
\<close>

fun pagesFrom ::
  "(string option \<Rightarrow> string + GraphQLResponse) \<Rightarrow> string option \<Rightarrow> GraphQLResponse list
     \<Rightarrow> bool" where
  "pagesFrom graphql cursor [] = True"
| "pagesFrom graphql cursor (page # rest) =
     (graphql cursor = Inr page \<and> pagesFrom graphql (Some (endCursor page)) rest)"

definition stalePage :: "int \<Rightarrow> GraphQLResponse \<Rightarrow> bool" where
  "stalePage cutoffDate page = list_ex (\<lambda>pr. olderThan pr cutoffDate) (nodes page)"

definition lastPage :: "int \<Rightarrow> GraphQLResponse \<Rightarrow> bool" where
  "lastPage cutoffDate page = (\<not> hasNextPage page \<or> stalePage cutoffDate page)"

definition servedNodes :: "GraphQLResponse list \<Rightarrow> GraphQLPRNode list" where
  "servedNodes pages = concat (map nodes pages)"

definition keptNodes :: "int \<Rightarrow> GraphQLResponse list \<Rightarrow> GraphQLPRNode list" where
  "keptNodes cutoffDate pages =
     takeWhile (\<lambda>pr. \<not> olderThan pr cutoffDate) (servedNodes pages)"

fun cursorsFrom :: "string option \<Rightarrow> GraphQLResponse list \<Rightarrow> string option list" where
  "cursorsFrom cursor [] = []"
| "cursorsFrom cursor (page # rest) = cursor # cursorsFrom (Some (endCursor page)) rest"

fun progressFrom :: "nat \<Rightarrow> GraphQLResponse list \<Rightarrow> nat list" where
  "progressFrom fetched [] = []"
| "progressFrom fetched (page # rest) =
     (fetched + length (nodes page)) # progressFrom (fetched + length (nodes page)) rest"

definition timestamped :: "GraphQLResponse \<Rightarrow> bool" where
  "timestamped page = list_all (\<lambda>pr. Date_parse (n_updatedAt pr) \<noteq> None) (nodes page)"

text \<open>\<open>const [owner, repo] = repoPath.split('/'); if (!owner || !repo) continue\<close>.\<close>

definition ownerAndRepo :: "string \<Rightarrow> (string \<times> string) option" where
  "ownerAndRepo repoPath =
     (case splitOn (CHR ''/'') repoPath of
        owner # rname # _ \<Rightarrow> if owner = [] \<or> rname = [] then None else Some (owner, rname)
      | _ \<Rightarrow> None)"

definition isRateLimit :: "string \<Rightarrow> bool" where
  "isRateLimit message =
     (stringIncludes message ''rate limit'' \<or> stringIncludes message ''403''
      \<or> stringIncludes message ''RATE_LIMITED'')"

record SyncResult =
  res_repo :: string
  synced :: nat
  res_error :: "string option"

text \<open>The \<open>for\<close> loop of the JSON route over the repositories, from the results so far.\<close>

fun syncRepos ::
  "source \<Rightarrow> (nat \<Rightarrow> int) \<Rightarrow> bool \<Rightarrow> string list \<Rightarrow> Store \<Rightarrow> SyncResult list
     \<Rightarrow> (SyncResult list \<times> Store) option" where
  "syncRepos src clock fullSync [] st results = Some (results, st)"
| "syncRepos src clock fullSync (repoPath # rest) st results =
     (case ownerAndRepo repoPath of
        None \<Rightarrow> syncRepos src clock fullSync rest st results
      | Some (owner, rname) \<Rightarrow>
          (case syncRepository src EXTENSION_TO_LANGUAGE clock fullSync repoPath owner rname st of
             None \<Rightarrow> None
           | Some (Inr n, st', requests, progress) \<Rightarrow>
               syncRepos src clock fullSync rest st'
                 (results @ [\<lparr>res_repo = repoPath, synced = n, res_error = None\<rparr>])
           | Some (Inl message, st', requests, progress) \<Rightarrow>
               (let results' = results @ [\<lparr>res_repo = repoPath, synced = 0,
                                            res_error = Some message\<rparr>]
                in if isRateLimit message then Some (results', st')
                   else syncRepos src clock fullSync rest st' results')))"

text \<open>Notions used to state the handling of failures: a repository path the loop does
  not skip, a result entry that records a rate-limit-class error, and the messages of the
  \<open>rate_limited\<close> events of a stream.\<close>

definition wellFormed :: "string \<Rightarrow> bool" where
  "wellFormed repoPath = (ownerAndRepo repoPath \<noteq> None)"

definition rateLimited :: "SyncResult \<Rightarrow> bool" where
  "rateLimited e = (case res_error e of Some message \<Rightarrow> isRateLimit message | None \<Rightarrow> False)"

text \<open>\<open>attempted rs new\<close>: the entries \<open>new\<close> are those of the well-formed repositories of
  \<open>rs\<close>, in order, up to and including the first one that failed with a rate-limit-class
  error (all of them if none did).\<close>

definition attempted :: "string list \<Rightarrow> SyncResult list \<Rightarrow> bool" where
  "attempted rs new =
     (map res_repo new = take (length new) (filter wellFormed rs)
      \<and> list_all (\<lambda>e. \<not> rateLimited e) (butlast new)
      \<and> (length new = length (filter wellFormed rs) \<or> (new \<noteq> [] \<and> rateLimited (last new))))"

text \<open>\<open>recorded src table clock fullSync st new st'\<close>: the entries \<open>new\<close> record, one after
  the other from the store \<open>st\<close> on, what the sync of their repositories returned. An entry
  of a sync that returned has its number of records and no error; an entry of a sync that
  threw has 0 records and the thrown message, and the store is as before it. \<open>st'\<close> is the
  store after the last entry.\<close>

fun recorded ::
  "source \<Rightarrow> (string \<times> string) list \<Rightarrow> (nat \<Rightarrow> int) \<Rightarrow> bool \<Rightarrow> Store \<Rightarrow> SyncResult list
     \<Rightarrow> Store \<Rightarrow> bool" where
  "recorded src table clock fullSync st [] st' = (st' = st)"
| "recorded src table clock fullSync st (e # new) st' =
     (case ownerAndRepo (res_repo e) of
        None \<Rightarrow> False
      | Some (owner, rname) \<Rightarrow>
          (case syncRepository src table clock fullSync (res_repo e) owner rname st of
             None \<Rightarrow> False
           | Some (Inr n, st1, requests, progress) \<Rightarrow>
               e = \<lparr>res_repo = res_repo e, synced = n, res_error = None\<rparr>
               \<and> recorded src table clock fullSync st1 new st'
           | Some (Inl message, st1, requests, progress) \<Rightarrow>
               e = \<lparr>res_repo = res_repo e, synced = 0, res_error = Some message\<rparr>
               \<and> st1 = st \<and> recorded src table clock fullSync st new st'))"

text \<open>The repositories and messages of the entries that record an error.\<close>

definition failures :: "SyncResult list \<Rightarrow> (string \<times> string) list" where
  "failures new =
     concat (map (\<lambda>e. case res_error e of Some message \<Rightarrow> [(res_repo e, message)] | None \<Rightarrow> [])
                 new)"

text \<open>The message of the rate-limit-class error that a list of entries ends with, if it
  ends with one.\<close>

definition abortMessages :: "SyncResult list \<Rightarrow> string list" where
  "abortMessages new =
     (if new \<noteq> [] \<and> rateLimited (last new)
      then (case res_error (last new) of Some message \<Rightarrow> [message] | None \<Rightarrow> [])
      else [])"

text \<open>\<open>data.resources.graphql\<close> of \<open>octokit.rest.rateLimit.get()\<close>.\<close>

record RateLimit =
  rl_remaining :: int
  rl_limit :: int
  rl_reset :: int

record SyncResponse =
  success :: bool
  sr_results :: "SyncResult list"
  sr_totalSynced :: nat
  sr_totalCached :: int
  sr_rateLimitRemaining :: "int option"

text \<open>The responses of the JSON route: status 400 with an error text, status 429 with
  the rate limit that was found low, status 200 with the results.\<close>

datatype JsonResponse =
    BadRequest string
  | RateLimitLow RateLimit
  | Synced SyncResponse

text \<open>
  The JSON route from the list of repository paths on. \<open>rateBefore\<close> and \<open>rateAfter\<close> are
  what the two readings of the rate limit give: \<open>None\<close> when the call throws or reports no
  GraphQL resource. The database does not fail, so the outer \<open>catch\<close> (status 500) is not
  reached.
\<close>

definition POST_sync ::
  "source \<Rightarrow> (nat \<Rightarrow> int) \<Rightarrow> bool \<Rightarrow> RateLimit option \<Rightarrow> RateLimit option \<Rightarrow> string list
     \<Rightarrow> Store \<Rightarrow> (JsonResponse \<times> Store) option" where
  "POST_sync src clock fullSync rateBefore rateAfter repos st =
     (if length repos = 0 then Some (BadRequest ''No repositories to sync'', st)
      else if (case rateBefore of Some rateLimit \<Rightarrow> rl_remaining rateLimit < 50 | None \<Rightarrow> False)
      then Some (RateLimitLow (the rateBefore), st)
      else (case syncRepos src clock fullSync repos st [] of
              None \<Rightarrow> None
            | Some (results, st') \<Rightarrow>
                Some (Synced \<lparr>success = True, sr_results = results,
                              sr_totalSynced = sum_list (map synced results),
                              sr_totalCached = getTotalCachedPRs st',
                              sr_rateLimitRemaining = map_option rl_remaining rateAfter\<rparr>,
                      st')))"

text \<open>The events of the streaming route. \<open>ev_progress\<close> is
  \<open>Math.round((i / repos.length) * 100)\<close>.\<close>

datatype SyncEvent =
    EvStart nat "string list" "string list" nat
  | EvRepoStart string nat nat int
  | EvRepoProgress string nat
  | EvRepoComplete string nat nat nat int nat
  | EvRepoError string string nat nat int
  | EvRateLimited string
  | EvComplete "SyncResult list" nat nat

text \<open>The messages of the \<open>rate_limited\<close> events, and the repositories and messages of the
  \<open>repo_error\<close> events, of a stream.\<close>

fun errorEvents :: "SyncEvent list \<Rightarrow> (string \<times> string) list" where
  "errorEvents [] = []"
| "errorEvents (EvRepoError repoPath message i totalRepos progress # evs) =
     (repoPath, message) # errorEvents evs"
| "errorEvents (ev # evs) = errorEvents evs"

fun rateLimitMessages :: "SyncEvent list \<Rightarrow> string list" where
  "rateLimitMessages [] = []"
| "rateLimitMessages (EvRateLimited message # evs) = message # rateLimitMessages evs"
| "rateLimitMessages (ev # evs) = rateLimitMessages evs"

definition ev_progress :: "nat \<Rightarrow> nat \<Rightarrow> int" where
  "ev_progress i totalRepos = Math_round (jsMul (jsDiv (of_nat i) (of_nat totalRepos)) 100)"

record StreamState =
  st_results :: "SyncResult list"
  st_totalSynced :: nat
  st_events :: "SyncEvent list"
  st_store :: Store

text \<open>The \<open>for (let i = 0; ...)\<close> loop of the streaming route, from index \<open>i\<close> on.\<close>

fun streamRepos ::
  "source \<Rightarrow> (nat \<Rightarrow> int) \<Rightarrow> bool \<Rightarrow> nat \<Rightarrow> nat \<Rightarrow> string list \<Rightarrow> StreamState
     \<Rightarrow> StreamState option" where
  "streamRepos src clock fullSync totalRepos i [] s = Some s"
| "streamRepos src clock fullSync totalRepos i (repoPath # rest) s =
     (case ownerAndRepo repoPath of
        None \<Rightarrow> streamRepos src clock fullSync totalRepos (Suc i) rest s
      | Some (owner, rname) \<Rightarrow>
          (let started = st_events s @ [EvRepoStart repoPath i totalRepos (ev_progress i totalRepos)]
           in case syncRepository src EXTENSION_TO_LANGUAGE_stream clock fullSync repoPath
                     owner rname (st_store s) of
                None \<Rightarrow> None
              | Some (Inr n, st', requests, progress) \<Rightarrow>
                  streamRepos src clock fullSync totalRepos (Suc i) rest
                    \<lparr>st_results = st_results s
                                     @ [\<lparr>res_repo = repoPath, synced = n, res_error = None\<rparr>],
                     st_totalSynced = st_totalSynced s + n,
                     st_events = started @ map (EvRepoProgress repoPath) progress
                                   @ [EvRepoComplete repoPath n i totalRepos
                                        (ev_progress (Suc i) totalRepos) (st_totalSynced s + n)],
                     st_store = st'\<rparr>
              | Some (Inl message, st', requests, progress) \<Rightarrow>
                  (let s' = \<lparr>st_results = st_results s
                                     @ [\<lparr>res_repo = repoPath, synced = 0,
                                         res_error = Some message\<rparr>],
                             st_totalSynced = st_totalSynced s,
                             st_events = started @ map (EvRepoProgress repoPath) progress
                                   @ [EvRepoError repoPath message i totalRepos
                                        (ev_progress (Suc i) totalRepos)],
                             st_store = st'\<rparr>
                   in if isRateLimit message
                      then Some (s'\<lparr>st_events := st_events s' @ [EvRateLimited message]\<rparr>)
                      else streamRepos src clock fullSync totalRepos (Suc i) rest s')))"

datatype StreamResponse =
    NoRepositories
  | NothingToResume nat
  | EventStream "SyncEvent list"

text \<open>Resume mode: the repositories synced less than an hour before \<open>now\<close> are skipped.\<close>

definition RESUME_THRESHOLD_MS :: int where
  "RESUME_THRESHOLD_MS = 60 * 60 * 1000"

definition recentlySynced :: "int \<Rightarrow> Store \<Rightarrow> string \<Rightarrow> bool" where
  "recentlySynced now st r =
     (case getLastSyncedAt r st of
        Some lastSynced \<Rightarrow> now - lastSynced < RESUME_THRESHOLD_MS
      | None \<Rightarrow> False)"

text \<open>The lists \<open>skippedRepos\<close> and \<open>reposToSync\<close> (all requested repositories without resume
  mode) and the store after \<open>Date.now()\<close> was read for them.\<close>

definition skippedRepos :: "(nat \<Rightarrow> int) \<Rightarrow> bool \<Rightarrow> string list \<Rightarrow> Store \<Rightarrow> string list" where
  "skippedRepos clock resume requested st =
     (if resume then filter (recentlySynced (clock (clockReads st)) st) requested else [])"

definition reposToSync :: "(nat \<Rightarrow> int) \<Rightarrow> bool \<Rightarrow> string list \<Rightarrow> Store \<Rightarrow> string list" where
  "reposToSync clock resume requested st =
     (if resume then filter (\<lambda>r. \<not> recentlySynced (clock (clockReads st)) st r) requested
      else requested)"

definition afterResumeCheck :: "bool \<Rightarrow> Store \<Rightarrow> Store" where
  "afterResumeCheck resume st = (if resume then st\<lparr>clockReads := Suc (clockReads st)\<rparr> else st)"

text \<open>The streaming route from the list of repository paths on.\<close>

definition POST_stream ::
  "source \<Rightarrow> (nat \<Rightarrow> int) \<Rightarrow> bool \<Rightarrow> bool \<Rightarrow> string list \<Rightarrow> Store
     \<Rightarrow> (StreamResponse \<times> Store) option" where
  "POST_stream src clock fullSync resume requested st =
     (if length requested = 0 then Some (NoRepositories, st)
      else
        (let skipped = skippedRepos clock resume requested st;
             repos = reposToSync clock resume requested st;
             st0 = afterResumeCheck resume st
         in if resume \<and> length repos = 0 then Some (NothingToResume (length skipped), st0)
            else
              (case streamRepos src clock fullSync (length repos) 0 repos
                      \<lparr>st_results = [], st_totalSynced = 0,
                       st_events = [EvStart (length repos) repos skipped (length skipped)],
                       st_store = st0\<rparr> of
                 None \<Rightarrow> None
               | Some s \<Rightarrow>
                   Some (EventStream
                           (st_events s
                              @ [EvComplete (st_results s) (st_totalSynced s) (length repos)]),
                         st_store s))))"

section \<open>Aggregation (lib/analyzer.ts)\<close>

text \<open>\<open>Record<PRSize, number>\<close>: one counter per size.\<close>

record SizeDist =
  cnt_XS :: int
  cnt_S :: int
  cnt_M :: int
  cnt_L :: int
  cnt_XL :: int
  cnt_XXL :: int

definition zeroSizes :: SizeDist where
  "zeroSizes = \<lparr>cnt_XS = 0, cnt_S = 0, cnt_M = 0, cnt_L = 0, cnt_XL = 0, cnt_XXL = 0\<rparr>"

text \<open>\<open>distribution[size]++\<close>.\<close>

fun incSize :: "PRSize \<Rightarrow> SizeDist \<Rightarrow> SizeDist" where
  "incSize XS d = d\<lparr>cnt_XS := cnt_XS d + 1\<rparr>"
| "incSize S d = d\<lparr>cnt_S := cnt_S d + 1\<rparr>"
| "incSize M d = d\<lparr>cnt_M := cnt_M d + 1\<rparr>"
| "incSize L d = d\<lparr>cnt_L := cnt_L d + 1\<rparr>"
| "incSize XL d = d\<lparr>cnt_XL := cnt_XL d + 1\<rparr>"
| "incSize XXL d = d\<lparr>cnt_XXL := cnt_XXL d + 1\<rparr>"

definition oneSize :: "PRSize \<Rightarrow> SizeDist" where
  "oneSize sz =
     \<lparr>cnt_XS = (if sz = XS then 1 else 0), cnt_S = (if sz = S then 1 else 0),
      cnt_M = (if sz = M then 1 else 0), cnt_L = (if sz = L then 1 else 0),
      cnt_XL = (if sz = XL then 1 else 0), cnt_XXL = (if sz = XXL then 1 else 0)\<rparr>"

definition sizeTotal :: "SizeDist \<Rightarrow> int" where
  "sizeTotal d = cnt_XS d + cnt_S d + cnt_M d + cnt_L d + cnt_XL d + cnt_XXL d"

record ContributorStats =
  username :: string
  avatar :: string
  c_totalPRs :: int
  c_mergedPRs :: int
  c_sizeDistribution :: SizeDist
  c_additions :: int
  c_deletions :: int
  c_prs :: "PullRequest list"
  languageStats :: "langmap option"
  c_avgComplexity :: "int option"

text \<open>A value of \<open>contributorMap\<close> while the records are grouped.\<close>

record ContributorData =
  d_username :: string
  d_avatar :: string
  d_totalPRs :: int
  d_mergedPRs :: int
  d_sizeDistribution :: SizeDist
  d_additions :: int
  d_deletions :: int
  d_prs :: "PullRequest list"
  d_languageLines :: langmap

record ReviewerStats =
  r_username :: string
  r_totalReviews :: int
  approvals :: int
  changesRequested :: int
  comments :: int
  reviewedPRs :: "int list"

record TimelineData =
  date :: string
  count :: int
  sizes :: SizeDist

record AnalysisResult =
  totalPRs :: int
  mergedPRs :: int
  openPRs :: int
  closedPRs :: int
  uniqueContributors :: int
  sizeDistribution :: SizeDist
  languageDistribution :: langmap
  contributors :: "ContributorStats list"
  reviewers :: "ReviewerStats list"
  totalReviews :: int
  avgComplexity :: int
  prs :: "PullRequest list"
  timeline :: "TimelineData list"
  repos :: "string list"
  dateRange :: "int \<times> int"

text \<open>\<open>Math.round((pct / 100) * prLines)\<close>: the line estimate of one language of one record.\<close>

definition lineEstimate :: "int \<Rightarrow> int \<Rightarrow> int" where
  "lineEstimate pct prLines = Math_round (jsMul (jsDiv (of_int pct) 100) (of_int prLines))"

text \<open>\<open>obj[key] = v\<close> on an object in insertion order.\<close>

fun setKey :: "string \<Rightarrow> 'v \<Rightarrow> (string \<times> 'v) list \<Rightarrow> (string \<times> 'v) list" where
  "setKey key v [] = [(key, v)]"
| "setKey key v ((k, x) # rest) =
     (if k = key then (k, v) # rest else (k, x) # setKey key v rest)"

text \<open>The loop \<open>for (const [lang, pct] of Object.entries(pr.languages))\<close> that adds the
  line estimates of a record to \<open>languageLines\<close>; nothing is added without a language map.\<close>

definition addLanguageLines :: "PullRequest \<Rightarrow> langmap \<Rightarrow> langmap" where
  "addLanguageLines pr languageLines =
     (case languages pr of
        None \<Rightarrow> languageLines
      | Some langs \<Rightarrow>
          (let prLines = additions pr + deletions pr
           in fold (\<lambda>(lang, pct). addLines lang (lineEstimate pct prLines)) langs languageLines))"

text \<open>The same loop for the first record of a contributor, which assigns.\<close>

definition firstLanguageLines :: "PullRequest \<Rightarrow> langmap" where
  "firstLanguageLines pr =
     (case languages pr of
        None \<Rightarrow> []
      | Some langs \<Rightarrow>
          (let prLines = additions pr + deletions pr
           in fold (\<lambda>(lang, pct). setKey lang (lineEstimate pct prLines)) langs []))"

definition newContributor :: "PullRequest \<Rightarrow> ContributorData" where
  "newContributor pr =
     \<lparr>d_username = author pr, d_avatar = authorAvatar pr, d_totalPRs = 1,
      d_mergedPRs = (if state pr = Merged then 1 else 0),
      d_sizeDistribution = oneSize (pr_size pr),
      d_additions = additions pr, d_deletions = deletions pr, d_prs = [pr],
      d_languageLines = firstLanguageLines pr\<rparr>"

definition updateContributor :: "PullRequest \<Rightarrow> ContributorData \<Rightarrow> ContributorData" where
  "updateContributor pr existing =
     existing\<lparr>d_totalPRs := d_totalPRs existing + 1,
               d_mergedPRs := (if state pr = Merged then d_mergedPRs existing + 1
                               else d_mergedPRs existing),
               d_sizeDistribution := incSize (pr_size pr) (d_sizeDistribution existing),
               d_additions := d_additions existing + additions pr,
               d_deletions := d_deletions existing + deletions pr,
               d_prs := d_prs existing @ [pr],
               d_languageLines := addLanguageLines pr (d_languageLines existing)\<rparr>"

text \<open>One round of the grouping loop on \<open>contributorMap\<close> (a \<open>Map\<close>, in insertion order,
  keyed by the author).\<close>

fun groupContributor :: "PullRequest \<Rightarrow> ContributorData list \<Rightarrow> ContributorData list" where
  "groupContributor pr [] = [newContributor pr]"
| "groupContributor pr (d # ds) =
     (if d_username d = author pr then updateContributor pr d # ds
      else d # groupContributor pr ds)"

definition contributorMap :: "PullRequest list \<Rightarrow> ContributorData list" where
  "contributorMap ps = fold groupContributor ps []"

text \<open>The percentages of a \<open>languageLines\<close> object: empty unless the total is positive.\<close>

definition linesToPercent :: "langmap \<Rightarrow> langmap" where
  "linesToPercent languageLines =
     (let totalLines = sum_list (map snd languageLines)
      in if totalLines > 0
         then map (\<lambda>(lang, lines). (lang, toPercent lines totalLines)) languageLines
         else [])"

text \<open>\<open>pr.complexity || 0\<close>: 0 for \<open>undefined\<close> and for \<open>NaN\<close>.\<close>

definition complexityOr0 :: "PullRequest \<Rightarrow> int" where
  "complexityOr0 pr = (case complexity pr of Some (Num c) \<Rightarrow> c | _ \<Rightarrow> 0)"

text \<open>\<open>Math.round(sum of (pr.complexity || 0) / length)\<close>, for a non-empty list.\<close>

definition meanComplexity :: "PullRequest list \<Rightarrow> int" where
  "meanComplexity ps =
     Math_round (jsDiv (of_int (sum_list (map complexityOr0 ps))) (of_nat (length ps)))"

definition toContributorStats :: "ContributorData \<Rightarrow> ContributorStats" where
  "toContributorStats d =
     (let stats = linesToPercent (d_languageLines d)
      in \<lparr>username = d_username d, avatar = d_avatar d, c_totalPRs = d_totalPRs d,
          c_mergedPRs = d_mergedPRs d, c_sizeDistribution = d_sizeDistribution d,
          c_additions = d_additions d, c_deletions = d_deletions d, c_prs = d_prs d,
          languageStats = (if length stats > 0 then Some stats else None),
          c_avgComplexity = (if length (d_prs d) > 0 then Some (meanComplexity (d_prs d))
                             else None)\<rparr>)"

text \<open>\<open>sort((a, b) => b.totalPRs - a.totalPRs)\<close>: a stable sort, largest first.\<close>

definition aggregateByContributor :: "PullRequest list \<Rightarrow> ContributorStats list" where
  "aggregateByContributor ps =
     sort_key (\<lambda>c. - c_totalPRs c) (map toContributorStats (contributorMap ps))"

definition aggregateSizeDistribution :: "PullRequest list \<Rightarrow> SizeDist" where
  "aggregateSizeDistribution ps = fold (\<lambda>pr. incSize (pr_size pr)) ps zeroSizes"

text \<open>The language names of this program are not array indices, so the object that is
  rebuilt from the sorted entries lists them in the sorted order.\<close>

definition aggregateLanguageDistribution :: "PullRequest list \<Rightarrow> langmap" where
  "aggregateLanguageDistribution ps =
     (let languageLines = fold addLanguageLines ps [];
          distribution = linesToPercent languageLines
      in sort_key (\<lambda>(lang, pct). - pct) distribution)"

definition newReviewer :: "int \<Rightarrow> PRReview \<Rightarrow> ReviewerStats" where
  "newReviewer prNumber review =
     \<lparr>r_username = reviewer review, r_totalReviews = 1,
      approvals = (if rv_state review = APPROVED then 1 else 0),
      changesRequested = (if rv_state review = CHANGES_REQUESTED then 1 else 0),
      comments = (if rv_state review = COMMENTED then 1 else 0),
      reviewedPRs = [prNumber]\<rparr>"

definition updateReviewer :: "int \<Rightarrow> PRReview \<Rightarrow> ReviewerStats \<Rightarrow> ReviewerStats" where
  "updateReviewer prNumber review existing =
     existing\<lparr>r_totalReviews := r_totalReviews existing + 1,
               approvals := (if rv_state review = APPROVED then approvals existing + 1
                             else approvals existing),
               changesRequested :=
                 (if rv_state review = CHANGES_REQUESTED
                  then changesRequested existing + 1 else changesRequested existing),
               comments :=
                 (if rv_state review = COMMENTED
                  then comments existing + 1 else comments existing),
               reviewedPRs := (if prNumber \<in> set (reviewedPRs existing) then reviewedPRs existing
                               else reviewedPRs existing @ [prNumber])\<rparr>"

fun groupReview :: "int \<Rightarrow> PRReview \<Rightarrow> ReviewerStats list \<Rightarrow> ReviewerStats list" where
  "groupReview prNumber review [] = [newReviewer prNumber review]"
| "groupReview prNumber review (r # rs) =
     (if r_username r = reviewer review then updateReviewer prNumber review r # rs
      else r # groupReview prNumber review rs)"

definition reviewerMap :: "PullRequest list \<Rightarrow> ReviewerStats list" where
  "reviewerMap ps =
     fold (\<lambda>pr m. case reviews pr of
                     None \<Rightarrow> m
                   | Some revs \<Rightarrow> fold (groupReview (number pr)) revs m)
          ps []"

definition aggregateByReviewer :: "PullRequest list \<Rightarrow> ReviewerStats list" where
  "aggregateByReviewer ps = sort_key (\<lambda>r. - r_totalReviews r) (reviewerMap ps)"

datatype bucketing = Daily | Weekly | Monthly

definition bucketingFor :: "int \<Rightarrow> bucketing" where
  "bucketingFor daysDiff =
     (if daysDiff \<le> 31 then Daily else if daysDiff \<le> 180 then Weekly else Monthly)"

definition intervalsFor :: "bucketing \<Rightarrow> int \<Rightarrow> int \<Rightarrow> jsError + int list" where
  "intervalsFor b startDate endDate =
     (case b of
        Daily \<Rightarrow> eachDayOfInterval startDate endDate
      | Weekly \<Rightarrow> eachWeekOfInterval startDate endDate
      | Monthly \<Rightarrow> eachMonthOfInterval startDate endDate)"

definition formatStrFor :: "bucketing \<Rightarrow> formatStr" where
  "formatStrFor b = (case b of Daily \<Rightarrow> yyyy_MM_dd | Weekly \<Rightarrow> yyyy_MM_dd | Monthly \<Rightarrow> yyyy_MM)"

definition emptyBucket :: "string \<Rightarrow> TimelineData" where
  "emptyBucket key = \<lparr>date = key, count = 0, sizes = zeroSizes\<rparr>"

text \<open>The loop that initialises \<open>timelineMap\<close> (a \<open>Map\<close>, in insertion order).\<close>

definition initTimeline :: "formatStr \<Rightarrow> int list \<Rightarrow> (string \<times> TimelineData) list" where
  "initTimeline f intervals =
     fold (\<lambda>d m. setKey (format d f) (emptyBucket (format d f)) m) intervals []"

text \<open>\<open>intervals.find((d, i) => prDate >= d && (!intervals[i + 1] || prDate < intervals[i + 1]))\<close>.\<close>

fun findWeek :: "int \<Rightarrow> int list \<Rightarrow> int option" where
  "findWeek prDate [] = None"
| "findWeek prDate [d] = (if prDate \<ge> d then Some d else None)"
| "findWeek prDate (d # nextWeek # rest) =
     (if prDate \<ge> d \<and> prDate < nextWeek then Some d
      else findWeek prDate (nextWeek # rest))"

text \<open>The key of a record; formatting an invalid creation date throws.\<close>

definition timelineKey :: "bucketing \<Rightarrow> int list \<Rightarrow> PullRequest \<Rightarrow> jsError + string" where
  "timelineKey b intervals pr =
     (case parseISO (createdAt pr) of
        None \<Rightarrow> Inl RangeError
      | Some prDate \<Rightarrow>
          (case b of
             Daily \<Rightarrow> Inr (format prDate yyyy_MM_dd)
           | Weekly \<Rightarrow>
               (case findWeek prDate intervals of
                  Some weekStart \<Rightarrow> Inr (format weekStart yyyy_MM_dd)
                | None \<Rightarrow> Inr (format prDate yyyy_MM_dd))
           | Monthly \<Rightarrow> Inr (format prDate yyyy_MM)))"

text \<open>\<open>existing.count++; existing[pr.size]++\<close> on the bucket of the key, if there is one.\<close>

fun bumpBucket :: "string \<Rightarrow> PRSize \<Rightarrow> (string \<times> TimelineData) list \<Rightarrow> (string \<times> TimelineData) list" where
  "bumpBucket key sz [] = []"
| "bumpBucket key sz ((k, t) # rest) =
     (if k = key then (k, t\<lparr>count := count t + 1, sizes := incSize sz (sizes t)\<rparr>) # rest
      else (k, t) # bumpBucket key sz rest)"

fun distribute ::
  "bucketing \<Rightarrow> int list \<Rightarrow> PullRequest list \<Rightarrow> (string \<times> TimelineData) list
     \<Rightarrow> jsError + (string \<times> TimelineData) list" where
  "distribute b intervals [] m = Inr m"
| "distribute b intervals (pr # rest) m =
     (case timelineKey b intervals pr of
        Inl e \<Rightarrow> Inl e
      | Inr key \<Rightarrow> distribute b intervals rest (bumpBucket key (pr_size pr) m))"

text \<open>\<open>sort((a, b) => a.date.localeCompare(b.date))\<close>: on these labels (digits and
  hyphens in fixed positions) the collation order is the lexicographic one.\<close>

definition aggregateTimeline :: "PullRequest list \<Rightarrow> int \<Rightarrow> int \<Rightarrow> jsError + TimelineData list" where
  "aggregateTimeline ps startDate endDate =
     (let b = bucketingFor (differenceInDays endDate startDate)
      in case intervalsFor b startDate endDate of
           Inl e \<Rightarrow> Inl e
         | Inr intervals \<Rightarrow>
             (case distribute b intervals ps (initTimeline (formatStrFor b) intervals) of
                Inl e \<Rightarrow> Inl e
              | Inr m \<Rightarrow> Inr (sort_key date (map snd m))))"

text \<open>\<open>complexity: pr.complexity ?? calculateComplexity(pr)\<close>.\<close>

definition withComplexity :: "PullRequest \<Rightarrow> PullRequest" where
  "withComplexity pr =
     pr\<lparr>complexity := Some (case complexity pr of Some c \<Rightarrow> c | None \<Rightarrow> calculateComplexity pr)\<rparr>"

definition countState :: "PRState \<Rightarrow> PullRequest list \<Rightarrow> int" where
  "countState st ps = int (length (filter (\<lambda>pr. state pr = st) ps))"

definition sumReviewCount :: "PullRequest list \<Rightarrow> int" where
  "sumReviewCount ps =
     fold (\<lambda>pr sum. sum + reviewCountOr0 pr) ps 0"

definition analyzeResults ::
  "PullRequest list \<Rightarrow> string list \<Rightarrow> int \<Rightarrow> int \<Rightarrow> jsError + AnalysisResult" where
  "analyzeResults ps rs startDate endDate =
     (let prsWithComplexity = map withComplexity ps;
          cs = aggregateByContributor prsWithComplexity
      in case aggregateTimeline prsWithComplexity startDate endDate of
           Inl e \<Rightarrow> Inl e
         | Inr buckets \<Rightarrow>
             Inr \<lparr>totalPRs = int (length prsWithComplexity),
                  mergedPRs = countState Merged prsWithComplexity,
                  openPRs = countState Open prsWithComplexity,
                  closedPRs = countState Closed prsWithComplexity,
                  uniqueContributors = int (length cs),
                  sizeDistribution = aggregateSizeDistribution prsWithComplexity,
                  languageDistribution = aggregateLanguageDistribution prsWithComplexity,
                  contributors = cs,
                  reviewers = aggregateByReviewer prsWithComplexity,
                  totalReviews = sumReviewCount prsWithComplexity,
                  avgComplexity = (if length prsWithComplexity > 0
                                   then meanComplexity prsWithComplexity else 0),
                  prs = prsWithComplexity,
                  timeline = buckets,
                  repos = rs,
                  dateRange = (startDate, endDate)\<rparr>)"

section \<open>Line-weighted language percentages, in the words of the specification\<close>

text \<open>
  The specification derives a contributor's language percentages in two steps: every
  percentage of an owned record becomes a line estimate, the estimates are summed per
  language across the owned records, and the percentages are taken again from the sums.
  These definitions say that; \<open>aggregateByContributor\<close> is compared with them below.
\<close>

text \<open>The keys of an object are distinct. The language names are plain: for a name that
  an object literal inherits, \<open>languageLines[lang] || 0\<close> is not a number, and the line
  counts are defined for plain names only.\<close>

definition wellFormedLanguages :: "PullRequest \<Rightarrow> bool" where
  "wellFormedLanguages pr =
     (plainLanguageNames pr
      \<and> (case languages pr of None \<Rightarrow> True | Some langs \<Rightarrow> distinct (map fst langs)))"

definition ownedBy :: "string \<Rightarrow> PullRequest list \<Rightarrow> PullRequest list" where
  "ownedBy u ps = filter (\<lambda>pr. author pr = u) ps"

text \<open>The line estimates of one record: \<open>round(pct / 100 * (additions + deletions))\<close> for
  every language of its map.\<close>

definition prEstimates :: "PullRequest \<Rightarrow> langmap" where
  "prEstimates pr =
     (case languages pr of
        None \<Rightarrow> []
      | Some langs \<Rightarrow>
          map (\<lambda>(lang, pct). (lang, lineEstimate pct (additions pr + deletions pr))) langs)"

definition allEstimates :: "PullRequest list \<Rightarrow> langmap" where
  "allEstimates ps = concat (map prEstimates ps)"

text \<open>The estimates of one language, summed across the records.\<close>

definition summedLines :: "PullRequest list \<Rightarrow> string \<Rightarrow> int" where
  "summedLines ps lang = sum_list (map snd (filter (\<lambda>entry. fst entry = lang) (allEstimates ps)))"

definition summedTotal :: "PullRequest list \<Rightarrow> int" where
  "summedTotal ps = sum_list (map snd (allEstimates ps))"

text \<open>The percentage of a language, derived again from the summed estimates.\<close>

definition rederivedPercent :: "PullRequest list \<Rightarrow> string \<Rightarrow> int" where
  "rederivedPercent ps lang = toPercent (summedLines ps lang) (summedTotal ps)"

text \<open>\<open>languageLines[lang]\<close>, 0 for a language without an entry.\<close>

definition linesAt :: "langmap \<Rightarrow> string \<Rightarrow> int" where
  "linesAt m lang = (case map_of m lang of Some v \<Rightarrow> v | None \<Rightarrow> 0)"

text \<open>\<open>grouped ps m\<close>: the map \<open>m\<close> has one entry for every author of \<open>ps\<close>, with the records
  the author owns and the line counts added up over them.\<close>

definition grouped :: "PullRequest list \<Rightarrow> ContributorData list \<Rightarrow> bool" where
  "grouped ps m \<longleftrightarrow>
     distinct (map d_username m) \<and> set (map d_username m) = set (map author ps)
     \<and> list_all (\<lambda>d. d_prs d = ownedBy (d_username d) ps
                      \<and> d_languageLines d
                          = fold addLanguageLines (ownedBy (d_username d) ps) []) m"

section \<open>Client-side filtering (app/page.tsx)\<close>

definition ALL_SIZES :: "PRSize list" where
  "ALL_SIZES = [XS, S, M, L, XL, XXL]"

definition applyFilters :: "PullRequest list \<Rightarrow> PRSize list \<Rightarrow> string list \<Rightarrow> string list \<Rightarrow> PullRequest list" where
  "applyFilters ps sizeFilter contributorFilter repoFilter =
     (let repoFilteredPRs =
            (if length repoFilter > 0 then filter (\<lambda>pr. repo pr \<in> set repoFilter) ps else ps);
          contributorFilteredPRs =
            (if length contributorFilter > 0
             then filter (\<lambda>pr. list_ex (\<lambda>handle. toLowerCase (author pr) = toLowerCase handle)
                                        contributorFilter) repoFilteredPRs
             else repoFilteredPRs)
      in filter (\<lambda>pr. pr_size pr \<in> set sizeFilter) contributorFilteredPRs)"

text \<open>A contributor of the filtered view: the language statistics are sorted by
  percentage and there is no average complexity.\<close>

definition toFilteredContributor :: "ContributorData \<Rightarrow> ContributorStats" where
  "toFilteredContributor c =
     (let sortedStats = sort_key (\<lambda>(lang, pct). - pct) (linesToPercent (d_languageLines c))
      in \<lparr>username = d_username c, avatar = d_avatar c, c_totalPRs = d_totalPRs c,
          c_mergedPRs = d_mergedPRs c, c_sizeDistribution = d_sizeDistribution c,
          c_additions = d_additions c, c_deletions = d_deletions c, c_prs = d_prs c,
          languageStats = (if length sortedStats > 0 then Some sortedStats else None),
          c_avgComplexity = None\<rparr>)"

text \<open>The records counted for a bucket \<open>t\<close> of the timeline that was fetched.\<close>

definition prsForDate :: "PullRequest list \<Rightarrow> TimelineData \<Rightarrow> PullRequest list" where
  "prsForDate ps t =
     filter (\<lambda>pr. let prDate = substring0 (createdAt pr) 10
                  in prDate = date t \<or> startsWith (date t) (substring0 prDate 7)) ps"

definition refilterBucket :: "PullRequest list \<Rightarrow> TimelineData \<Rightarrow> TimelineData" where
  "refilterBucket ps t =
     t\<lparr>count := int (length (prsForDate ps t)),
       sizes := fold (\<lambda>pr. incSize (pr_size pr)) (prsForDate ps t) zeroSizes\<rparr>"

definition filteredData ::
  "AnalysisResult \<Rightarrow> PRSize list \<Rightarrow> string list \<Rightarrow> string list \<Rightarrow> AnalysisResult" where
  "filteredData data sizeFilter contributorFilter repoFilter =
     (let fullyFilteredPRs = applyFilters (prs data) sizeFilter contributorFilter repoFilter;
          newContributors =
            sort_key (\<lambda>c. - c_totalPRs c)
              (map toFilteredContributor (contributorMap fullyFilteredPRs))
      in data\<lparr>totalPRs := int (length fullyFilteredPRs),
              mergedPRs := countState Merged fullyFilteredPRs,
              openPRs := countState Open fullyFilteredPRs,
              closedPRs := countState Closed fullyFilteredPRs,
              uniqueContributors := int (length newContributors),
              prs := fullyFilteredPRs,
              contributors := newContributors,
              reviewers := aggregateByReviewer fullyFilteredPRs,
              totalReviews := sumReviewCount fullyFilteredPRs,
              avgComplexity := (if length fullyFilteredPRs > 0
                                then meanComplexity fullyFilteredPRs else 0),
              sizeDistribution := aggregateSizeDistribution fullyFilteredPRs,
              languageDistribution := aggregateLanguageDistribution fullyFilteredPRs,
              timeline := map (refilterBucket fullyFilteredPRs) (timeline data)\<rparr>)"

section \<open>Example inputs\<close>

text \<open>An open pull request of \<open>alice\<close> in \<open>octo/app\<close>, created on 2025-08-05, that changes
  nothing; the examples below vary it.\<close>

definition examplePR :: PullRequest where
  "examplePR =
     \<lparr>pr_id = 1, number = 1, title = ''Fix'', author = ''alice'', authorAvatar = [],
      state = Open, createdAt = ''2025-08-05T10:00:00Z'', mergedAt = None, closedAt = None,
      additions = 0, deletions = 0, changedFiles = 0, pr_size = XS, url = [],
      repo = ''octo/app'', languages = None, reviewCount = None, reviews = None,
      complexity = None\<rparr>"

text \<open>A file \<open>main.py\<close> that is listed without changed lines (a rename, a mode change).\<close>

definition unchangedFile :: GraphQLFileNode where
  "unchangedFile = \<lparr>path = ''main.py'', f_additions = 0, f_deletions = 0\<rparr>"

text \<open>The example record with three reviews counted by the hosting API, of which one
  event (by \<open>bob\<close>) is kept.\<close>

definition reviewedPR :: PullRequest where
  "reviewedPR =
     examplePR\<lparr>reviewCount := Some 3,
               reviews := Some [\<lparr>reviewer = ''bob'', rv_state = APPROVED,
                                 submittedAt = ''2025-08-05T12:00:00Z''\<rparr>]\<rparr>"

text \<open>An empty database before any clock reading.\<close>

definition emptyStore :: Store where
  "emptyStore = \<lparr>pull_requests = [], sync_status = [], clockReads = 0\<rparr>"

text \<open>A node of the hosting API, updated on 2025-08-05, with nothing changed.\<close>

definition exampleNode :: GraphQLPRNode where
  "exampleNode =
     \<lparr>n_id = ''PR_kwDOAbCdEf'', n_number = 1, n_title = ''Fix'', n_state = OPEN,
      n_createdAt = ''2025-08-05T10:00:00Z'', n_updatedAt = ''2025-08-05T10:00:00Z'',
      n_mergedAt = None, n_closedAt = None, n_additions = 0, n_deletions = 0,
      n_changedFiles = 0, n_url = [], n_author = Some (''alice'', []), n_files = [],
      n_totalCount = 0, n_reviews = []\<rparr>"

text \<open>Pull requests 12 and 34 of one repository; the digits of both node ids are 123.\<close>

definition nodeA :: GraphQLPRNode where
  "nodeA = exampleNode\<lparr>n_id := ''PR_kwDOA1b2c3'', n_number := 12\<rparr>"

definition nodeB :: GraphQLPRNode where
  "nodeB = exampleNode\<lparr>n_id := ''PR_kwDOZ1y2x3'', n_number := 34\<rparr>"

text \<open>A node last updated on 2025-06-30, one second before the fixed cutoff, and a node
  last updated on 2025-08-04, one millisecond before 10:00:00.\<close>

definition staleNode :: GraphQLPRNode where
  "staleNode = exampleNode\<lparr>n_number := 5, n_updatedAt := ''2025-06-30T23:59:59Z''\<rparr>"

definition dayOldNode :: GraphQLPRNode where
  "dayOldNode = exampleNode\<lparr>n_number := 3, n_updatedAt := ''2025-08-04T09:59:59.999Z''\<rparr>"

text \<open>A source with three pages for every repository, each announcing a next page: one
  node updated on 2025-08-05; then such a node, the node of 2025-08-04 and another node of
  2025-08-05; then the node of 2025-06-30. A fourth request throws.\<close>

definition firstPage :: GraphQLResponse where
  "firstPage = \<lparr>hasNextPage = True, endCursor = ''c1'', nodes = [exampleNode]\<rparr>"

definition secondPage :: GraphQLResponse where
  "secondPage =
     \<lparr>hasNextPage = True, endCursor = ''c2'',
      nodes = [exampleNode\<lparr>n_number := 2\<rparr>, dayOldNode, exampleNode\<lparr>n_number := 4\<rparr>]\<rparr>"

definition thirdPage :: GraphQLResponse where
  "thirdPage = \<lparr>hasNextPage = True, endCursor = ''c3'', nodes = [staleNode]\<rparr>"

definition pagedSource :: source where
  "pagedSource owner rname cursor =
     (if cursor = None then Inr firstPage
      else if cursor = Some ''c1'' then Inr secondPage
      else if cursor = Some ''c2'' then Inr thirdPage
      else Inl ''page 4 requested'')"

text \<open>A clock that starts on 2025-08-05T10:00:00Z and advances by a millisecond per reading.\<close>

definition exampleClock :: "nat \<Rightarrow> int" where
  "exampleClock k = 1754388000000 + int k"

text \<open>A store in which \<open>octo/app\<close> was synced on 2025-08-05T10:00:00Z.\<close>

definition syncedStore :: Store where
  "syncedStore =
     \<lparr>pull_requests = [],
      sync_status = [\<lparr>s_repo = ''octo/app'', last_synced_at = 1754388000000, pr_count = 0\<rparr>],
      clockReads = 0\<rparr>"

text \<open>A source whose repository \<open>down\<close> fails, whose repository \<open>limited\<close> fails with a
  rate-limit message, and which has one empty page for every other repository.\<close>

definition flakySource :: source where
  "flakySource owner rname cursor =
     (if rname = ''down'' then Inl ''Bad gateway''
      else if rname = ''limited'' then Inl ''API rate limit exceeded''
      else Inr \<lparr>hasNextPage = False, endCursor = [], nodes = []\<rparr>)"

definition exampleRepos :: "string list" where
  "exampleRepos = [''octo/app'', ''nonsense'', ''octo/down'', ''octo/limited'', ''octo/later'']"



definition mixedPR :: PullRequest where
  "mixedPR = examplePR\<lparr>number := 2, additions := 200,
                       languages := Some [(''Python'', 50), (''JSON'', 50)]\<rparr>"

text \<open>The window from 2025-08-05T00:00:00Z to 2025-08-06T00:00:00Z.\<close>

definition aug5 :: int where
  "aug5 = 1754352000000"

definition aug6 :: int where
  "aug6 = 1754438400000"

section \<open>Size classification: the buckets\<close>

text \<open>The size is decided by the computed score through the half-open intervals
  \<open>(-\<infinity>,10)\<close>, \<open>[10,50)\<close>, \<open>[50,200)\<close>, \<open>[200,500)\<close>, \<open>[500,1000)\<close>, \<open>[1000,\<infinity>)\<close>.\<close>

lemma calculatePRSize_intervals:
  "(calculatePRSize adds dels filesChanged = XS
      \<longleftrightarrow> combinedScore adds dels filesChanged < 10)
   \<and> (calculatePRSize adds dels filesChanged = S
        \<longleftrightarrow> 10 \<le> combinedScore adds dels filesChanged
            \<and> combinedScore adds dels filesChanged < 50)
   \<and> (calculatePRSize adds dels filesChanged = M
        \<longleftrightarrow> 50 \<le> combinedScore adds dels filesChanged
            \<and> combinedScore adds dels filesChanged < 200)
   \<and> (calculatePRSize adds dels filesChanged = L
        \<longleftrightarrow> 200 \<le> combinedScore adds dels filesChanged
            \<and> combinedScore adds dels filesChanged < 500)
   \<and> (calculatePRSize adds dels filesChanged = XL
        \<longleftrightarrow> 500 \<le> combinedScore adds dels filesChanged
            \<and> combinedScore adds dels filesChanged < 1000)
   \<and> (calculatePRSize adds dels filesChanged = XXL
        \<longleftrightarrow> 1000 \<le> combinedScore adds dels filesChanged)"
  by (simp add: calculatePRSize_def Let_def)

text \<open>The computed score: every product and the sum are rounded to a double, and so are
  the literals \<open>0.7\<close> and \<open>0.3\<close>.\<close>

lemma combinedScore_rounded:
  "combinedScore adds dels filesChanged
     = fl64 (fl64 (of_int (adds + dels) * fl64 (7 / 10))
             + fl64 (of_int (filesChanged * 20) * fl64 (3 / 10)))"
  by (simp add: combinedScore_def jsAdd_def jsMul_def jsLit_def Let_def)

lemma combinedScore_680_0_4: "combinedScore 680 0 4 = 500 - 1 / 2 ^ 44"
  by code_simp

lemma combinedScore_1420_0_1: "combinedScore 1420 0 1 = 1000 - 1 / 2 ^ 43"
  by code_simp

lemma combinedScore_20_0_6: "combinedScore 20 0 6 = 50"
  by code_simp

text \<open>
  Claim C4 holds of the specification's arithmetic and fails on the code. The code
  computes the score \<open>(lineScore * 0.7) + (fileScore * 0.3)\<close> in doubles, rounding after
  every operation. For 680 changed lines in 4 files the score of the claim is
  \<open>0.7 * 680 + 0.3 * 80 = 500\<close>, a threshold, so the claim gives the higher bucket XL; the
  computed product \<open>680 * 0.7\<close> is the double just below 476, the computed score is
  \<open>500 - 2^-44\<close>, and the code returns L. For 1420 changed lines in 1 file the score of
  the claim is 1000 (XXL) and the code returns XL. For 20 changed lines in 6 files both
  scores are 50 and both sizes are M.
\<close>

theorem calculatePRSize_threshold_rounding:
  "combinedScore adds dels filesChanged
     = fl64 (fl64 (of_int (adds + dels) * fl64 (7 / 10))
             + fl64 (of_int (filesChanged * 20) * fl64 (3 / 10)))
   \<and> combinedScore_spec 680 0 4 = 500
   \<and> calculatePRSize_spec 680 0 4 = XL
   \<and> combinedScore 680 0 4 = 500 - 1 / 2 ^ 44
   \<and> calculatePRSize 680 0 4 = L
   \<and> combinedScore_spec 1420 0 1 = 1000
   \<and> calculatePRSize_spec 1420 0 1 = XXL
   \<and> combinedScore 1420 0 1 = 1000 - 1 / 2 ^ 43
   \<and> calculatePRSize 1420 0 1 = XL
   \<and> combinedScore_spec 20 0 6 = 50
   \<and> calculatePRSize_spec 20 0 6 = M
   \<and> combinedScore 20 0 6 = 50
   \<and> calculatePRSize 20 0 6 = M"
proof -
  have spec: "combinedScore_spec 680 0 4 = 500" "combinedScore_spec 1420 0 1 = 1000"
    "combinedScore_spec 20 0 6 = 50"
    by (simp_all add: combinedScore_spec_def)
  have spec_size: "calculatePRSize_spec 680 0 4 = XL" "calculatePRSize_spec 1420 0 1 = XXL"
    "calculatePRSize_spec 20 0 6 = M"
    by (simp_all add: calculatePRSize_spec_def spec)
  have size: "calculatePRSize 680 0 4 = L" "calculatePRSize 1420 0 1 = XL"
    "calculatePRSize 20 0 6 = M"
    by (simp_all add: calculatePRSize_def combinedScore_680_0_4 combinedScore_1420_0_1
        combinedScore_20_0_6)
  show ?thesis
    using spec spec_size size combinedScore_680_0_4 combinedScore_1420_0_1
      combinedScore_20_0_6 combinedScore_rounded [of adds dels filesChanged]
    by simp
qed

section \<open>Language attribution at sync time\<close>

lemma sum_addLines: "sum_list (map snd (addLines key n m)) = sum_list (map snd m) + n"
  by (induction m) auto

text \<open>A new key goes to the end; a known key keeps its place.\<close>

lemma map_fst_addLines:
  "map fst (addLines key n m) = (if key \<in> set (map fst m) then map fst m else map fst m @ [key])"
  by (induction m) (fastforce simp: image_iff)+

lemma keys_addLines: "set (map fst (addLines key n m)) = insert key (set (map fst m))"
  by (auto simp: map_fst_addLines simp del: set_map)

lemma distinct_addLines: "distinct (map fst m) \<Longrightarrow> distinct (map fst (addLines key n m))"
  by (simp add: map_fst_addLines del: set_map)

lemma fold_files_sum:
  "sum_list (map snd (fold (\<lambda>file languageLines.
             addLines (getLanguageFromPath table (path file)) (fileLines file) languageLines)
           files m))
   = sum_list (map snd m) + sum_list (map fileLines files)"
  by (induction files arbitrary: m) (auto simp: sum_addLines)

lemma fold_files_keys:
  "set (map fst (fold (\<lambda>file languageLines.
             addLines (getLanguageFromPath table (path file)) (fileLines file) languageLines)
           files m))
   = set (map fst m) \<union> (\<lambda>f. getLanguageFromPath table (path f)) ` set files"
  by (induction files arbitrary: m) (auto simp: keys_addLines simp del: set_map)

lemma fold_files_distinct:
  "distinct (map fst m) \<Longrightarrow> distinct (map fst (fold (\<lambda>file languageLines.
             addLines (getLanguageFromPath table (path file)) (fileLines file) languageLines)
           files m))"
  by (induction files arbitrary: m) (auto simp: distinct_addLines)

lemma fileLanguageLines_sum:
  "sum_list (map snd (fileLanguageLines table files)) = sum_list (map fileLines files)"
  by (simp add: fileLanguageLines_def fold_files_sum)

lemma fileLanguageLines_keys:
  "set (map fst (fileLanguageLines table files))
     = (\<lambda>f. getLanguageFromPath table (path f)) ` set files"
  using fold_files_keys [of table files "[]"] by (simp add: fileLanguageLines_def)

lemma fileLanguageLines_distinct: "distinct (map fst (fileLanguageLines table files))"
  by (simp add: fileLanguageLines_def fold_files_distinct)

lemma languagesOfFiles_keys:
  "map fst (languagesOfFiles table files) = map fst (fileLanguageLines table files)"
  by (simp add: languagesOfFiles_def Let_def case_prod_unfold comp_def)

lemma language_of_main_py:
  "getLanguageFromPath EXTENSION_TO_LANGUAGE ''main.py'' = ''Python''"
  by code_simp

lemma language_of_main_py_stream:
  "getLanguageFromPath EXTENSION_TO_LANGUAGE_stream ''main.py'' = ''Python''"
  by code_simp

text \<open>
  Claim C6, as stated, fails: for a file list whose changed lines sum to 0 the language
  map is not empty unless the list is. A single file \<open>main.py\<close> without changed lines
  gives the one-entry map Python: 0 in both sync routes.
\<close>

theorem languagesOfFiles_zero_counterexample:
  "sum_list (map fileLines [unchangedFile]) = 0
   \<and> languagesOfFiles EXTENSION_TO_LANGUAGE [unchangedFile] = [(''Python'', 0)]
   \<and> languagesOfFiles EXTENSION_TO_LANGUAGE_stream [unchangedFile] = [(''Python'', 0)]
   \<and> languagesOfFiles EXTENSION_TO_LANGUAGE [unchangedFile] \<noteq> []
   \<and> languagesOfFiles EXTENSION_TO_LANGUAGE_stream [unchangedFile] \<noteq> []"
  by (simp add: languagesOfFiles_def fileLanguageLines_def fileLines_def unchangedFile_def
      language_of_main_py language_of_main_py_stream)

text \<open>
  Claim C6, amended. For every file list whose changed lines sum to 0, the language map
  has exactly one entry for each language of a listed file, every entry is 0 percent,
  and the map is empty only for the empty file list.
\<close>

theorem languagesOfFiles_zero_total:
  assumes "sum_list (map fileLines files) = 0"
  shows "languagesOfFiles table files
           = map (\<lambda>lang. (lang, 0)) (map fst (fileLanguageLines table files))
       \<and> set (map fst (languagesOfFiles table files))
           = (\<lambda>f. getLanguageFromPath table (path f)) ` set files
       \<and> distinct (map fst (languagesOfFiles table files))
       \<and> (\<forall>entry \<in> set (languagesOfFiles table files). snd entry = 0)
       \<and> (languagesOfFiles table files = [] \<longleftrightarrow> files = [])"
proof -
  have z: "sum_list (map snd (fileLanguageLines table files)) = 0"
    using assms by (simp add: fileLanguageLines_sum)
  have eq: "languagesOfFiles table files
      = map (\<lambda>lang. (lang, 0)) (map fst (fileLanguageLines table files))"
    by (simp add: languagesOfFiles_def Let_def z case_prod_unfold comp_def)
  have keys: "set (map fst (languagesOfFiles table files))
      = (\<lambda>f. getLanguageFromPath table (path f)) ` set files"
    by (simp only: languagesOfFiles_keys fileLanguageLines_keys)
  have d: "distinct (map fst (languagesOfFiles table files))"
    by (simp add: languagesOfFiles_keys fileLanguageLines_distinct)
  have v: "\<forall>entry \<in> set (languagesOfFiles table files). snd entry = 0"
    by (auto simp: eq)
  have "languagesOfFiles table files = [] \<longleftrightarrow> set (map fst (languagesOfFiles table files)) = {}"
    by simp
  then have e: "languagesOfFiles table files = [] \<longleftrightarrow> files = []"
    by (simp only: keys) simp
  from eq keys d v e show ?thesis by blast
qed

theorem languagesOfFiles_zero_total_witness:
  "sum_list (map fileLines [unchangedFile]) = 0
   \<and> languagesOfFiles EXTENSION_TO_LANGUAGE [unchangedFile] = [(''Python'', 0)]"
proof -
  have h: "sum_list (map fileLines [unchangedFile]) = 0"
    by (simp add: fileLines_def unchangedFile_def)
  have p: "path unchangedFile = ''main.py''"
    by (simp add: unchangedFile_def)
  have f: "map fst (fileLanguageLines EXTENSION_TO_LANGUAGE [unchangedFile]) = [''Python'']"
    by (simp add: fileLanguageLines_def p language_of_main_py)
  from languagesOfFiles_zero_total [OF h, of EXTENSION_TO_LANGUAGE]
  have "languagesOfFiles EXTENSION_TO_LANGUAGE [unchangedFile]
      = map (\<lambda>lang. (lang, 0)) (map fst (fileLanguageLines EXTENSION_TO_LANGUAGE [unchangedFile]))"
    by blast
  with h f show ?thesis
    by simp
qed

section \<open>Complexity score: range and composition\<close>









lemma weightLoop_total:
  "snd (weightLoop langs (ws, t)) = t + sum_list (map snd langs)"
  by (induction langs arbitrary: ws t) auto

lemma weightLoop_NaN: "fst (weightLoop langs (NaN, t)) = NaN"
  by (induction langs arbitrary: t) (auto simp: nanAdd_def)











section \<open>Aggregation: totals\<close>

lemma withComplexity_fields [simp]:
  "pr_id (withComplexity pr) = pr_id pr" "number (withComplexity pr) = number pr"
  "title (withComplexity pr) = title pr" "author (withComplexity pr) = author pr"
  "authorAvatar (withComplexity pr) = authorAvatar pr" "state (withComplexity pr) = state pr"
  "createdAt (withComplexity pr) = createdAt pr" "mergedAt (withComplexity pr) = mergedAt pr"
  "closedAt (withComplexity pr) = closedAt pr" "additions (withComplexity pr) = additions pr"
  "deletions (withComplexity pr) = deletions pr"
  "changedFiles (withComplexity pr) = changedFiles pr"
  "pr_size (withComplexity pr) = pr_size pr" "url (withComplexity pr) = url pr"
  "repo (withComplexity pr) = repo pr" "languages (withComplexity pr) = languages pr"
  "reviewCount (withComplexity pr) = reviewCount pr" "reviews (withComplexity pr) = reviews pr"
  by (simp_all add: withComplexity_def)

lemma reviewCountOr0_withComplexity [simp]:
  "reviewCountOr0 (withComplexity pr) = reviewCountOr0 pr"
  by (simp add: reviewCountOr0_def)

lemma fold_plus_sum: "fold (\<lambda>x (sum::int). sum + f x) xs a = a + sum_list (map f xs)"
  by (induction xs arbitrary: a) auto

lemma sumReviewCount_eq: "sumReviewCount ps = sum_list (map reviewCountOr0 ps)"
  by (simp add: sumReviewCount_def fold_plus_sum)

text \<open>The fields of a result that \<open>analyzeResults\<close> returns.\<close>

lemma analyzeResults_Inr:
  assumes "analyzeResults ps rs startDate endDate = Inr d"
  shows "totalReviews d = sumReviewCount (map withComplexity ps)"
    and "prs d = map withComplexity ps"
    and "aggregateTimeline (map withComplexity ps) startDate endDate = Inr (timeline d)"
    and "totalPRs d = int (length ps)"
    and "sizeDistribution d = aggregateSizeDistribution (map withComplexity ps)"
    and "reviewers d = aggregateByReviewer (map withComplexity ps)"
    and "contributors d = aggregateByContributor (map withComplexity ps)"
  using assms by (auto simp: analyzeResults_def Let_def split: sum.splits)

text \<open>The analysis returns a result for a window that does not end before it starts
  and records whose creation timestamps are valid.\<close>

lemma timelineKey_Inr:
  "parseISO (createdAt pr) = Some t \<Longrightarrow> \<exists>key. timelineKey b intervals pr = Inr key"
  by (cases b; cases "findWeek t intervals") (simp_all add: timelineKey_def)

lemma distribute_Inr:
  "\<forall>pr \<in> set ps. parseISO (createdAt pr) \<noteq> None
   \<Longrightarrow> \<exists>m'. distribute b intervals ps m = Inr m'"
proof (induction ps arbitrary: m)
  case Nil
  then show ?case by simp
next
  case (Cons pr ps)
  then obtain t where t: "parseISO (createdAt pr) = Some t" by auto
  then obtain key where "timelineKey b intervals pr = Inr key"
    using timelineKey_Inr by blast
  with Cons show ?case by simp
qed

lemma intervalsFor_Inr:
  "startDate \<le> endDate \<Longrightarrow> \<exists>intervals. intervalsFor b startDate endDate = Inr intervals"
  by (cases b) (simp_all add: intervalsFor_def eachDayOfInterval_def eachWeekOfInterval_def
      eachMonthOfInterval_def)

lemma aggregateTimeline_Inr:
  assumes "startDate \<le> endDate" and "\<forall>pr \<in> set ps. parseISO (createdAt pr) \<noteq> None"
  shows "\<exists>buckets. aggregateTimeline ps startDate endDate = Inr buckets"
proof -
  obtain intervals where i:
    "intervalsFor (bucketingFor (differenceInDays endDate startDate)) startDate endDate
       = Inr intervals"
    using intervalsFor_Inr [OF assms(1)] by blast
  obtain m' where
    "distribute (bucketingFor (differenceInDays endDate startDate)) intervals ps
       (initTimeline (formatStrFor (bucketingFor (differenceInDays endDate startDate)))
          intervals) = Inr m'"
    using distribute_Inr [OF assms(2)] by blast
  with i show ?thesis by (simp add: aggregateTimeline_def Let_def)
qed

lemma analyzeResults_returns:
  assumes "startDate \<le> endDate" and "\<forall>pr \<in> set ps. parseISO (createdAt pr) \<noteq> None"
  shows "\<exists>d. analyzeResults ps rs startDate endDate = Inr d"
proof -
  have "\<forall>pr \<in> set (map withComplexity ps). parseISO (createdAt pr) \<noteq> None"
    using assms(2) by simp
  from aggregateTimeline_Inr [OF assms(1) this]
  show ?thesis by (auto simp: analyzeResults_def Let_def)
qed

lemma parse_example: "parseISO ''2025-08-05T10:00:00Z'' = Some 1754388000000"
  by code_simp

lemma reviewedPR_result:
  "\<exists>d. analyzeResults [reviewedPR] [''octo/app''] aug5 aug6 = Inr d"
  by (rule analyzeResults_returns)
     (simp_all add: reviewedPR_def examplePR_def parse_example aug5_def aug6_def)

text \<open>
  Claim C10. The overall \<open>totalReviews\<close> of a result is the sum of the records'
  \<open>reviewCount\<close> fields, an absent one counting 0; the review-event lists play no part
  in it. So it can differ from the sum of the reviewers' \<open>totalReviews\<close>: for a record
  with \<open>reviewCount\<close> 3 of which one review event is kept, the overall total is 3 and the
  reviewers' totals add up to 1.
\<close>

theorem analyzeResults_totalReviews:
  "(analyzeResults ps rs startDate endDate = Inr d
      \<longrightarrow> totalReviews d = sum_list (map reviewCountOr0 ps))
   \<and> (case analyzeResults [reviewedPR] [''octo/app''] aug5 aug6 of
        Inl e \<Rightarrow> False
      | Inr d' \<Rightarrow> totalReviews d' = 3 \<and> sum_list (map r_totalReviews (reviewers d')) = 1)"
proof -
  have a: "analyzeResults ps rs startDate endDate = Inr d
      \<longrightarrow> totalReviews d = sum_list (map reviewCountOr0 ps)"
    by (auto simp: analyzeResults_Inr(1) sumReviewCount_eq comp_def)
  obtain d' where d': "analyzeResults [reviewedPR] [''octo/app''] aug5 aug6 = Inr d'"
    using reviewedPR_result by blast
  have t: "totalReviews d' = 3"
    by (simp add: analyzeResults_Inr(1) [OF d'] sumReviewCount_eq reviewedPR_def
        examplePR_def reviewCountOr0_def)
  have r: "reviewers d' = [\<lparr>r_username = ''bob'', r_totalReviews = 1, approvals = 1,
      changesRequested = 0, comments = 0, reviewedPRs = [1]\<rparr>]"
    by (simp add: analyzeResults_Inr(6) [OF d'] aggregateByReviewer_def reviewerMap_def
        reviewedPR_def examplePR_def newReviewer_def)
  from a d' t r show ?thesis by simp
qed

theorem analyzeResults_totalReviews_witness:
  "analyzeResults [reviewedPR] [''octo/app''] aug5 aug6
     = Inr (projr (analyzeResults [reviewedPR] [''octo/app''] aug5 aug6))
   \<and> totalReviews (projr (analyzeResults [reviewedPR] [''octo/app''] aug5 aug6)) = 3
   \<and> sum_list (map reviewCountOr0 [reviewedPR]) = 3"
proof -
  obtain d' where d': "analyzeResults [reviewedPR] [''octo/app''] aug5 aug6 = Inr d'"
    using reviewedPR_result by blast
  have s: "sum_list (map reviewCountOr0 [reviewedPR]) = 3"
    by (simp add: reviewedPR_def examplePR_def reviewCountOr0_def)
  from analyzeResults_totalReviews [of "[reviewedPR]" "''octo/app'' # []" aug5 aug6 d'] d' s
  show ?thesis by simp
qed

section \<open>Persistence: upsert\<close>

lemma toRow_key [simp]:
  "col_id (toRow now pr) = pr_id pr" "col_repo (toRow now pr) = repo pr"
  "col_number (toRow now pr) = number pr" "col_updated_at (toRow now pr) = now"
  by (simp_all add: toRow_def)

lemma toPullRequest_key [simp]:
  "pr_id (toPullRequest table repoPath node) = nodeNumericId node"
  "number (toPullRequest table repoPath node) = n_number node"
  "repo (toPullRequest table repoPath node) = repoPath"
  by (simp_all add: toPullRequest_def Let_def)

lemma pull_requests_savePullRequest:
  "pull_requests (savePullRequest clock pr st)
     = insertOrReplace (toRow (clock (clockReads st)) pr) (pull_requests st)"
  by (simp add: savePullRequest_def)

lemma clockReads_savePullRequest [simp]:
  "clockReads (savePullRequest clock pr st) = Suc (clockReads st)"
  by (simp add: savePullRequest_def)

lemma insertOrReplace_twice:
  "insertOrReplace (toRow t2 pr) (insertOrReplace (toRow t1 pr) rows)
     = filter (\<lambda>old. \<not> conflicts (toRow t1 pr) old) rows @ [toRow t2 pr]"
  by (simp add: insertOrReplace_def conflicts_def)

lemma rowsFor_insertOrReplace:
  "filter (\<lambda>row. col_repo row = repo pr \<and> col_number row = number pr)
      (insertOrReplace (toRow now pr) rows) = [toRow now pr]"
  by (simp add: insertOrReplace_def conflicts_def filter_empty_conv)

text \<open>After an upsert the key reads back as exactly one record, and every field of it
  comes from the record just written: nothing of an older version is left.\<close>

lemma readBack_savePullRequest:
  "readBack (repo pr) (number pr) (savePullRequest clock pr st)
     = [fromRow (toRow (clock (clockReads st)) pr)]"
  by (simp add: readBack_def rowsFor_def pull_requests_savePullRequest rowsFor_insertOrReplace)

lemma fromRow_toRow:
  "fromRow (toRow now pr) = pr\<lparr>reviewCount := Some (reviewCountOr0 pr), complexity := None\<rparr>"
  by (simp add: fromRow_def toRow_def)

text \<open>Upserting the same record again changes the bookkeeping timestamp of its row
  and nothing else in the table.\<close>

lemma savePullRequest_idempotent:
  "readBack (repo pr) (number pr) (savePullRequest clock pr (savePullRequest clock pr st))
     = readBack (repo pr) (number pr) (savePullRequest clock pr st)
   \<and> map (\<lambda>row. row\<lparr>col_updated_at := 0\<rparr>)
        (pull_requests (savePullRequest clock pr (savePullRequest clock pr st)))
     = map (\<lambda>row. row\<lparr>col_updated_at := 0\<rparr>) (pull_requests (savePullRequest clock pr st))"
  by (simp add: readBack_savePullRequest fromRow_toRow pull_requests_savePullRequest
      insertOrReplace_twice) (simp add: insertOrReplace_def toRow_def)

text \<open>No two rows ever share a (repository, number) pair, nor an id.\<close>

lemma distinct_keys_insertOrReplace:
  "distinct (map rowKey rows) \<Longrightarrow> distinct (map rowKey (insertOrReplace new rows))"
  by (auto simp: insertOrReplace_def conflicts_def rowKey_def distinct_map_filter)

lemma distinct_keys_savePullRequests:
  "distinct (map rowKey (pull_requests st))
   \<Longrightarrow> distinct (map rowKey (pull_requests (savePullRequests clock ps st)))"
  unfolding savePullRequests_def
  by (induction ps arbitrary: st)
     (simp_all add: pull_requests_savePullRequest distinct_keys_insertOrReplace)

lemma distinct_ids_insertOrReplace:
  "distinct (map col_id rows) \<Longrightarrow> distinct (map col_id (insertOrReplace new rows))"
  by (auto simp: insertOrReplace_def conflicts_def distinct_map_filter)

text \<open>A row survives the upsert of a record with another id and another key.\<close>

lemma kept_insertOrReplace:
  "old \<in> set rows \<Longrightarrow> col_id old \<noteq> col_id new \<Longrightarrow> rowKey old \<noteq> rowKey new
   \<Longrightarrow> old \<in> set (insertOrReplace new rows)"
  by (auto simp: insertOrReplace_def conflicts_def rowKey_def)

lemma nodeA_id: "nodeNumericId nodeA = 123"
  by code_simp

lemma nodeB_id: "nodeNumericId nodeB = 123"
  by code_simp

lemma nodeAB_numbers: "n_number nodeA = 12" "n_number nodeB = 34"
  by (simp_all add: nodeA_def nodeB_def)

text \<open>
  Claim C2. Upserting a record twice leaves the read-back record as it was but for the
  bookkeeping timestamp, an upsert overwrites every field, and no two rows share a
  (repository, number) pair: these hold (lemmas above). The last part, that no upsert
  removes a row with a different (repository, number) pair, does not: the \<open>id\<close> column is
  the primary key and the id is cut from the digits of the node id, so two pull requests
  can share it. Here pull requests 12 and 34 of one repository both get id 123, and the
  batch that stores both leaves only number 34 in the table.
\<close>

theorem savePullRequests_id_collision:
  "nodeNumericId nodeA = 123 \<and> nodeNumericId nodeB = 123
   \<and> n_number nodeA = 12 \<and> n_number nodeB = 34
   \<and> map col_number
        (pull_requests
           (savePullRequests clock [toPullRequest table ''octo/app'' nodeA] emptyStore)) = [12]
   \<and> map col_number
        (pull_requests
           (savePullRequests clock
              [toPullRequest table ''octo/app'' nodeA, toPullRequest table ''octo/app'' nodeB]
              emptyStore)) = [34]
   \<and> readBack ''octo/app'' 12
        (savePullRequests clock
           [toPullRequest table ''octo/app'' nodeA, toPullRequest table ''octo/app'' nodeB]
           emptyStore) = []"
  by (simp add: nodeA_id nodeB_id nodeAB_numbers savePullRequests_def
      pull_requests_savePullRequest insertOrReplace_def conflicts_def emptyStore_def
      readBack_def rowsFor_def)

section \<open>Sync engine: cutoff and early exit\<close>

lemma processNodes_eq:
  "processNodes table cutoffDate repoPath ns acc
     = (acc @ map (toPullRequest table repoPath) (takeWhile (\<lambda>n. \<not> olderThan n cutoffDate) ns),
        \<exists>n \<in> set ns. olderThan n cutoffDate)"
  by (induction ns arbitrary: acc) auto

lemma fetchLoop_stop:
  assumes "graphql cursor = Inr response" and "\<exists>n \<in> set (nodes response). olderThan n cutoffDate"
  shows "fetchLoop graphql table cutoffDate repoPath cursor acc requests progress
     = Some (Inr (acc @ map (toPullRequest table repoPath)
                          (takeWhile (\<lambda>n. \<not> olderThan n cutoffDate) (nodes response))),
             requests @ [cursor], progress)"
  using assms by (subst fetchLoop.simps) (simp add: processNodes_eq)

lemma fetchLoop_last:
  assumes "graphql cursor = Inr response" and "\<not> hasNextPage response"
  shows "fetchLoop graphql table cutoffDate repoPath cursor acc requests progress
     = Some (Inr (acc @ map (toPullRequest table repoPath)
                          (takeWhile (\<lambda>n. \<not> olderThan n cutoffDate) (nodes response))),
             requests @ [cursor], progress)"
  using assms by (subst fetchLoop.simps) (simp add: processNodes_eq)

lemma fetchLoop_throw:
  assumes "graphql cursor = Inl message"
  shows "fetchLoop graphql table cutoffDate repoPath cursor acc requests progress
     = Some (Inl message, requests @ [cursor], progress)"
  using assms by (subst fetchLoop.simps) simp

lemma fetchLoop_next:
  assumes "graphql cursor = Inr response" and "hasNextPage response"
    and "\<forall>n \<in> set (nodes response). \<not> olderThan n cutoffDate"
  shows "fetchLoop graphql table cutoffDate repoPath cursor acc requests progress
     = fetchLoop graphql table cutoffDate repoPath (Some (endCursor response))
         (acc @ map (toPullRequest table repoPath) (nodes response)) (requests @ [cursor])
         (progress @ [length acc + length (nodes response)])"
proof -
  have tw: "takeWhile (\<lambda>n. \<not> olderThan n cutoffDate) (nodes response) = nodes response"
    using assms(3) by (simp add: takeWhile_eq_all_conv)
  show ?thesis
    by (subst fetchLoop.simps) (simp add: processNodes_eq assms tw)
qed

lemma savePullRequests_Nil [simp]: "savePullRequests clock [] st = st"
  by (simp add: savePullRequests_def)

lemma pull_requests_updateSyncStatus [simp]:
  "pull_requests (updateSyncStatus clock r n st) = pull_requests st"
  by (simp add: updateSyncStatus_def)

text \<open>While no page is the last one, every node is kept.\<close>

lemma keptNodes_Cons:
  "\<not> lastPage cutoffDate page
   \<Longrightarrow> keptNodes cutoffDate (page # rest) = nodes page @ keptNodes cutoffDate rest"
  by (simp add: keptNodes_def servedNodes_def lastPage_def stalePage_def list_ex_iff)

lemma keptNodes_single:
  "keptNodes cutoffDate [final] = takeWhile (\<lambda>pr. \<not> olderThan pr cutoffDate) (nodes final)"
  by (simp add: keptNodes_def servedNodes_def)

lemma keptNodes_final:
  "list_all (\<lambda>page. \<not> lastPage cutoffDate page) pages
   \<Longrightarrow> keptNodes cutoffDate (pages @ [final])
       = servedNodes pages @ takeWhile (\<lambda>pr. \<not> olderThan pr cutoffDate) (nodes final)"
  by (induction pages) (simp_all add: keptNodes_Cons keptNodes_single servedNodes_def)

lemma keptNodes_fresh:
  "pr \<in> set (keptNodes cutoffDate pages) \<Longrightarrow> \<not> olderThan pr cutoffDate"
  by (auto simp: keptNodes_def dest: set_takeWhileD)

lemma keptNodes_served:
  "pr \<in> set (keptNodes cutoffDate pages) \<Longrightarrow> \<exists>page \<in> set pages. pr \<in> set (nodes page)"
  by (auto simp: keptNodes_def servedNodes_def dest: set_takeWhileD)

text \<open>A record older than the cutoff cuts its page: the nodes before it are kept, it and
  the nodes after it are not.\<close>

lemma stalePage_cut:
  assumes "stalePage cutoffDate final"
  shows "\<exists>before pr after. nodes final = before @ pr # after \<and> olderThan pr cutoffDate
           \<and> takeWhile (\<lambda>pr. \<not> olderThan pr cutoffDate) (nodes final) = before"
proof -
  let ?P = "\<lambda>pr. \<not> olderThan pr cutoffDate"
  from assms have ne: "dropWhile ?P (nodes final) \<noteq> []"
    by (auto simp: stalePage_def list_ex_iff)
  then obtain pr after where d: "dropWhile ?P (nodes final) = pr # after"
    by (cases "dropWhile ?P (nodes final)") auto
  then have "olderThan pr cutoffDate"
    using hd_dropWhile [OF ne] by simp
  moreover have "nodes final = takeWhile ?P (nodes final) @ pr # after"
    using takeWhile_dropWhile_id [of ?P "nodes final"] d by simp
  ultimately show ?thesis by blast
qed

text \<open>The loop on a source that serves pages of which the last, and no earlier one, ends
  it: the records of the kept nodes, one request per page, and nothing after.\<close>

lemma fetchLoop_pages:
  assumes "pagesFrom graphql cursor (pages @ [final])"
    and "list_all (\<lambda>page. \<not> lastPage cutoffDate page) pages"
    and "lastPage cutoffDate final"
  shows "fetchLoop graphql table cutoffDate repoPath cursor acc requests progress
     = Some (Inr (acc @ map (toPullRequest table repoPath)
                          (keptNodes cutoffDate (pages @ [final]))),
             requests @ cursorsFrom cursor (pages @ [final]),
             progress @ progressFrom (length acc) pages)"
  using assms
proof (induction pages arbitrary: cursor acc requests progress)
  case Nil
  then have g: "graphql cursor = Inr final" by simp
  from Nil have "\<not> hasNextPage final \<or> (\<exists>pr \<in> set (nodes final). olderThan pr cutoffDate)"
    by (simp add: lastPage_def stalePage_def list_ex_iff)
  then show ?case
  proof
    assume "\<not> hasNextPage final"
    from fetchLoop_last [where graphql = graphql and cursor = cursor, OF g this]
    show ?thesis by (simp add: keptNodes_single)
  next
    assume "\<exists>pr \<in> set (nodes final). olderThan pr cutoffDate"
    from fetchLoop_stop [where graphql = graphql and cursor = cursor, OF g this]
    show ?thesis by (simp add: keptNodes_single)
  qed
next
  case (Cons page pages)
  then have g: "graphql cursor = Inr page"
    and rest: "pagesFrom graphql (Some (endCursor page)) (pages @ [final])"
    and go: "\<not> lastPage cutoffDate page"
    and gos: "list_all (\<lambda>page. \<not> lastPage cutoffDate page) pages"
    by simp_all
  from go have more: "hasNextPage page"
    and fresh: "\<forall>pr \<in> set (nodes page). \<not> olderThan pr cutoffDate"
    by (simp_all add: lastPage_def stalePage_def list_ex_iff)
  have "fetchLoop graphql table cutoffDate repoPath cursor acc requests progress
      = fetchLoop graphql table cutoffDate repoPath (Some (endCursor page))
          (acc @ map (toPullRequest table repoPath) (nodes page)) (requests @ [cursor])
          (progress @ [length acc + length (nodes page)])"
    by (rule fetchLoop_next [where graphql = graphql and cursor = cursor, OF g more fresh])
  also have "\<dots> = Some (Inr ((acc @ map (toPullRequest table repoPath) (nodes page))
                          @ map (toPullRequest table repoPath)
                              (keptNodes cutoffDate (pages @ [final]))),
             (requests @ [cursor]) @ cursorsFrom (Some (endCursor page)) (pages @ [final]),
             (progress @ [length acc + length (nodes page)])
               @ progressFrom (length (acc @ map (toPullRequest table repoPath) (nodes page)))
                   pages)"
    by (rule Cons.IH [OF rest gos Cons.prems(3)])
  finally show ?case
    by (simp add: keptNodes_Cons [OF go])
qed

lemma length_cursorsFrom: "length (cursorsFrom cursor pages) = length pages"
  by (induction pages arbitrary: cursor) simp_all

text \<open>The sync of one repository on such a source.\<close>

lemma syncRepository_pages:
  assumes "pagesFrom (src owner rname) None (pages @ [final])"
    and "list_all (\<lambda>page. \<not> lastPage (cutoffDateFor fullSync repoPath st) page) pages"
    and "lastPage (cutoffDateFor fullSync repoPath st) final"
  shows "syncRepository src table clock fullSync repoPath owner rname st
     = Some (Inr (length (keptNodes (cutoffDateFor fullSync repoPath st) (pages @ [final]))),
             updateSyncStatus clock repoPath
               (int (length (keptNodes (cutoffDateFor fullSync repoPath st) (pages @ [final]))))
               (savePullRequests clock
                  (map (toPullRequest table repoPath)
                     (keptNodes (cutoffDateFor fullSync repoPath st) (pages @ [final])))
                  st),
             cursorsFrom None (pages @ [final]), progressFrom 0 pages)"
proof -
  let ?kept = "keptNodes (cutoffDateFor fullSync repoPath st) (pages @ [final])"
  have f: "fetchLoop (src owner rname) table (cutoffDateFor fullSync repoPath st) repoPath
        None [] [] []
      = Some (Inr (map (toPullRequest table repoPath) ?kept),
              cursorsFrom None (pages @ [final]), progressFrom 0 pages)"
    using fetchLoop_pages [where graphql = "src owner rname" and cursor = None, OF assms,
        of table repoPath "[]" "[]" "[]"]
    by simp
  show ?thesis
    by (cases "?kept") (simp_all add: syncRepository_def f)
qed

text \<open>A row of the table after a batch upsert is an earlier row or the row of a record
  of the batch.\<close>

lemma rows_savePullRequests:
  "row \<in> set (pull_requests (savePullRequests clock batch st))
   \<Longrightarrow> row \<in> set (pull_requests st) \<or> (\<exists>pr \<in> set batch. \<exists>now. row = toRow now pr)"
proof (induction batch arbitrary: st)
  case Nil
  then show ?case by simp
next
  case (Cons pr batch)
  from Cons.prems have "row \<in> set (pull_requests (savePullRequests clock batch
      (savePullRequest clock pr st)))"
    by (simp add: savePullRequests_def)
  from Cons.IH [OF this]
  have "row \<in> set (pull_requests (savePullRequest clock pr st))
      \<or> (\<exists>pr \<in> set batch. \<exists>now. row = toRow now pr)" .
  then show ?case
  proof
    assume "row \<in> set (pull_requests (savePullRequest clock pr st))"
    then have "row = toRow (clock (clockReads st)) pr \<or> row \<in> set (pull_requests st)"
      by (auto simp: pull_requests_savePullRequest insertOrReplace_def)
    then show ?thesis by auto
  next
    assume "\<exists>pr \<in> set batch. \<exists>now. row = toRow now pr"
    then show ?thesis by auto
  qed
qed

lemma cutoff_parse: "Date_parse ''2025-07-01T00:00:00Z'' = Some SYNC_CUTOFF_DATE"
  by code_simp

text \<open>
  Claim C3. In incremental mode the cutoff is the stored last-synced-at minus 24 hours
  when the repository has a sync-status row, and 2025-07-01T00:00:00Z otherwise. Let
  the source serve, from the first request on, pages of timestamped nodes of which the
  last one, and none before it, holds a record last updated strictly before the cutoff
  or announces no next page. Then the sync returns; it makes one request per page and
  none after the last; it keeps exactly the nodes served before the first one that is
  older than the cutoff: all nodes of the earlier pages and, of the last page, the nodes
  before that one, none at or after it; it upserts the records of the kept nodes, in
  order, and records their number with the sync time. Every kept node was last updated at
  or after the cutoff, and every row of the table afterwards is an earlier row or the
  row of a kept node.
\<close>

theorem incremental_sync_cutoff:
  assumes served: "pagesFrom (src owner rname) None (pages @ [final])"
    and go: "list_all (\<lambda>page. \<not> lastPage (cutoffDateFor False repoPath st) page) pages"
    and stop: "lastPage (cutoffDateFor False repoPath st) final"
    and stamps: "list_all timestamped (pages @ [final])"
  shows "cutoffDateFor False repoPath st
       = (case getLastSyncedAt repoPath st of
            Some lastSynced \<Rightarrow> lastSynced - 86400000
          | None \<Rightarrow> SYNC_CUTOFF_DATE)
     \<and> Date_parse ''2025-07-01T00:00:00Z'' = Some SYNC_CUTOFF_DATE
     \<and> (let cutoffDate = cutoffDateFor False repoPath st;
             kept = keptNodes cutoffDate (pages @ [final]);
             stored = savePullRequests clock (map (toPullRequest table repoPath) kept) st
         in syncRepository src table clock False repoPath owner rname st
              = Some (Inr (length kept),
                      updateSyncStatus clock repoPath (int (length kept)) stored,
                      cursorsFrom None (pages @ [final]), progressFrom 0 pages)
            \<and> length (cursorsFrom None (pages @ [final])) = length pages + 1
            \<and> kept = servedNodes pages
                        @ takeWhile (\<lambda>pr. \<not> olderThan pr cutoffDate) (nodes final)
            \<and> (stalePage cutoffDate final
                 \<longrightarrow> (\<exists>before pr after. nodes final = before @ pr # after
                        \<and> olderThan pr cutoffDate \<and> kept = servedNodes pages @ before))
            \<and> (\<forall>pr \<in> set kept. \<exists>t. Date_parse (n_updatedAt pr) = Some t \<and> cutoffDate \<le> t)
            \<and> (\<forall>row \<in> set (pull_requests stored).
                  row \<in> set (pull_requests st)
                  \<or> (\<exists>pr \<in> set kept. \<exists>now. row = toRow now (toPullRequest table repoPath pr))))"
proof -
  let ?c = "cutoffDateFor False repoPath st"
  let ?kept = "keptNodes ?c (pages @ [final])"
  let ?stored = "savePullRequests clock (map (toPullRequest table repoPath) ?kept) st"
  have a: "?c = (case getLastSyncedAt repoPath st of
            Some lastSynced \<Rightarrow> lastSynced - 86400000
          | None \<Rightarrow> SYNC_CUTOFF_DATE)"
    by (simp add: cutoffDateFor_def split: option.split)
  have run: "syncRepository src table clock False repoPath owner rname st
      = Some (Inr (length ?kept), updateSyncStatus clock repoPath (int (length ?kept)) ?stored,
              cursorsFrom None (pages @ [final]), progressFrom 0 pages)"
    by (rule syncRepository_pages [where src = src and owner = owner and rname = rname,
          OF served go stop])
  have len: "length (cursorsFrom None (pages @ [final])) = length pages + 1"
    by (simp add: length_cursorsFrom)
  have kept: "?kept = servedNodes pages @ takeWhile (\<lambda>pr. \<not> olderThan pr ?c) (nodes final)"
    by (rule keptNodes_final [OF go])
  have cut: "stalePage ?c final
      \<longrightarrow> (\<exists>before pr after. nodes final = before @ pr # after
             \<and> olderThan pr ?c \<and> ?kept = servedNodes pages @ before)"
    using stalePage_cut [of ?c final] kept by auto
  have fresh: "\<forall>pr \<in> set ?kept. \<exists>t. Date_parse (n_updatedAt pr) = Some t \<and> ?c \<le> t"
  proof
    fix pr
    assume k: "pr \<in> set ?kept"
    from keptNodes_served [OF k] stamps have "Date_parse (n_updatedAt pr) \<noteq> None"
      by (auto simp: timestamped_def list_all_iff)
    then obtain t where t: "Date_parse (n_updatedAt pr) = Some t" by auto
    with keptNodes_fresh [OF k] have "?c \<le> t"
      by (simp add: olderThan_def)
    with t show "\<exists>t. Date_parse (n_updatedAt pr) = Some t \<and> ?c \<le> t" by simp
  qed
  have rows: "\<forall>row \<in> set (pull_requests ?stored).
      row \<in> set (pull_requests st)
      \<or> (\<exists>pr \<in> set ?kept. \<exists>now. row = toRow now (toPullRequest table repoPath pr))"
  proof
    fix row
    assume "row \<in> set (pull_requests ?stored)"
    from rows_savePullRequests [OF this]
    show "row \<in> set (pull_requests st)
      \<or> (\<exists>pr \<in> set ?kept. \<exists>now. row = toRow now (toPullRequest table repoPath pr))"
      by auto
  qed
  show ?thesis
    unfolding Let_def
    apply (rule conjI, rule a)
    apply (rule conjI, rule cutoff_parse)
    apply (rule conjI, rule run)
    apply (rule conjI, rule len)
    apply (rule conjI, rule kept)
    apply (rule conjI, rule cut)
    apply (rule conjI, rule fresh)
    apply (rule rows)
    done
qed

text \<open>
  The example source and a repository synced on 2025-08-05T10:00:00Z: the cutoff is
  2025-08-04T10:00:00Z, the second page holds the node of 09:59:59.999 on that day, and
  the sync keeps the two nodes before it after two requests. Without a sync-status row
  the cutoff is 2025-07-01T00:00:00Z: that node is kept, the third page ends the sync,
  which keeps four nodes after three requests and never makes the fourth.
\<close>

lemma example_ages:
  "\<not> olderThan exampleNode 1754301600000" "olderThan dayOldNode 1754301600000"
  "\<not> olderThan exampleNode SYNC_CUTOFF_DATE" "\<not> olderThan dayOldNode SYNC_CUTOFF_DATE"
  "olderThan staleNode SYNC_CUTOFF_DATE"
  by code_simp+

lemma example_stamps:
  "Date_parse (n_updatedAt exampleNode) \<noteq> None" "Date_parse (n_updatedAt dayOldNode) \<noteq> None"
  "Date_parse (n_updatedAt staleNode) \<noteq> None"
  by code_simp+

lemma olderThan_number [simp]: "olderThan (n\<lparr>n_number := k\<rparr>) c = olderThan n c"
  by (simp add: olderThan_def)

lemma cutoff_empty: "cutoffDateFor False ''octo/app'' emptyStore = SYNC_CUTOFF_DATE"
  by (simp add: cutoffDateFor_def getLastSyncedAt_def emptyStore_def)

lemma cutoff_synced: "cutoffDateFor False ''octo/app'' syncedStore = 1754301600000"
  by (simp add: cutoffDateFor_def getLastSyncedAt_def syncedStore_def)

lemma example_pages:
  "pagesFrom (pagedSource ''octo'' ''app'') None ([firstPage] @ [secondPage])"
  "pagesFrom (pagedSource ''octo'' ''app'') None ([firstPage, secondPage] @ [thirdPage])"
  by (simp_all add: pagedSource_def firstPage_def secondPage_def)

lemma example_timestamped:
  "list_all timestamped ([firstPage] @ [secondPage])"
  "list_all timestamped ([firstPage, secondPage] @ [thirdPage])"
  using example_stamps
  by (simp_all add: timestamped_def firstPage_def secondPage_def thirdPage_def)

lemma example_lastPage:
  "\<not> lastPage 1754301600000 firstPage" "lastPage 1754301600000 secondPage"
  "\<not> lastPage SYNC_CUTOFF_DATE firstPage" "\<not> lastPage SYNC_CUTOFF_DATE secondPage"
  "lastPage SYNC_CUTOFF_DATE thirdPage"
  by (simp_all add: lastPage_def stalePage_def firstPage_def secondPage_def thirdPage_def
      example_ages)

lemma exampleNode_ids:
  "nodeNumericId exampleNode = 1" "nodeNumericId (exampleNode\<lparr>n_number := 2\<rparr>) = 2"
  "nodeNumericId dayOldNode = 3" "nodeNumericId (exampleNode\<lparr>n_number := 4\<rparr>) = 4"
  by code_simp+

lemma exampleNode_number: "n_number exampleNode = 1" "n_number dayOldNode = 3"
  by (simp_all add: exampleNode_def dayOldNode_def)

lemma example_page_fields:
  "endCursor firstPage = ''c1''" "endCursor secondPage = ''c2''"
  "length (nodes firstPage) = 1" "length (nodes secondPage) = 3"
  by (simp_all add: firstPage_def secondPage_def)

theorem incremental_sync_cutoff_witness:
  "getLastSyncedAt ''octo/app'' syncedStore = Some 1754388000000
   \<and> cutoffDateFor False ''octo/app'' syncedStore = 1754301600000
   \<and> keptNodes 1754301600000 [firstPage, secondPage]
       = [exampleNode, exampleNode\<lparr>n_number := 2\<rparr>]
   \<and> syncRepository pagedSource EXTENSION_TO_LANGUAGE exampleClock False ''octo/app''
         ''octo'' ''app'' syncedStore
       = Some (Inr 2,
               updateSyncStatus exampleClock ''octo/app'' 2
                 (savePullRequests exampleClock
                    [toPullRequest EXTENSION_TO_LANGUAGE ''octo/app'' exampleNode,
                     toPullRequest EXTENSION_TO_LANGUAGE ''octo/app''
                       (exampleNode\<lparr>n_number := 2\<rparr>)]
                    syncedStore),
               [None, Some ''c1''], [1])
   \<and> map col_number
         (pull_requests
            (savePullRequests exampleClock
               [toPullRequest EXTENSION_TO_LANGUAGE ''octo/app'' exampleNode,
                toPullRequest EXTENSION_TO_LANGUAGE ''octo/app''
                  (exampleNode\<lparr>n_number := 2\<rparr>)]
               syncedStore)) = [1, 2]
   \<and> getLastSyncedAt ''octo/app'' emptyStore = None
   \<and> cutoffDateFor False ''octo/app'' emptyStore = SYNC_CUTOFF_DATE
   \<and> keptNodes SYNC_CUTOFF_DATE [firstPage, secondPage, thirdPage]
       = [exampleNode, exampleNode\<lparr>n_number := 2\<rparr>, dayOldNode, exampleNode\<lparr>n_number := 4\<rparr>]
   \<and> map_option (\<lambda>r. (fst r, fst (snd (snd r))))
         (syncRepository pagedSource EXTENSION_TO_LANGUAGE exampleClock False ''octo/app''
            ''octo'' ''app'' emptyStore)
       = Some (Inr 4, [None, Some ''c1'', Some ''c2''])"
proof -
  have s1: "getLastSyncedAt ''octo/app'' syncedStore = Some 1754388000000"
    by (simp add: getLastSyncedAt_def syncedStore_def)
  have s2: "getLastSyncedAt ''octo/app'' emptyStore = None"
    by (simp add: getLastSyncedAt_def emptyStore_def)
  have k1: "keptNodes 1754301600000 [firstPage, secondPage]
      = [exampleNode, exampleNode\<lparr>n_number := 2\<rparr>]"
    by (simp add: keptNodes_def servedNodes_def firstPage_def secondPage_def example_ages)
  have k2: "keptNodes SYNC_CUTOFF_DATE [firstPage, secondPage, thirdPage]
      = [exampleNode, exampleNode\<lparr>n_number := 2\<rparr>, dayOldNode, exampleNode\<lparr>n_number := 4\<rparr>]"
    by (simp add: keptNodes_def servedNodes_def firstPage_def secondPage_def thirdPage_def
        example_ages)
  have g1: "list_all (\<lambda>page. \<not> lastPage 1754301600000 page) [firstPage]"
    by (simp add: example_lastPage)
  have g2: "list_all (\<lambda>page. \<not> lastPage SYNC_CUTOFF_DATE page) [firstPage, secondPage]"
    by (simp add: example_lastPage)
  note t1 = incremental_sync_cutoff [where src = pagedSource and owner = "''octo''"
      and rname = "''app''" and repoPath = "''octo/app''" and st = syncedStore
      and pages = "[firstPage]" and final = secondPage
      and table = EXTENSION_TO_LANGUAGE and clock = exampleClock,
      unfolded cutoff_synced Let_def,
      OF example_pages(1) g1 example_lastPage(2) example_timestamped(1)]
  note t2 = incremental_sync_cutoff [where src = pagedSource and owner = "''octo''"
      and rname = "''app''" and repoPath = "''octo/app''" and st = emptyStore
      and pages = "[firstPage, secondPage]" and final = thirdPage
      and table = EXTENSION_TO_LANGUAGE and clock = exampleClock,
      unfolded cutoff_empty Let_def,
      OF example_pages(2) g2 example_lastPage(5) example_timestamped(2)]
  have c1: "cutoffDateFor False ''octo/app'' syncedStore = 1754301600000"
    by (rule cutoff_synced)
  have c2: "cutoffDateFor False ''octo/app'' emptyStore = SYNC_CUTOFF_DATE"
    by (rule cutoff_empty)
  from t1 [THEN conjunct2, THEN conjunct2, THEN conjunct1]
  have r1: "syncRepository pagedSource EXTENSION_TO_LANGUAGE exampleClock False ''octo/app''
         ''octo'' ''app'' syncedStore
       = Some (Inr 2,
               updateSyncStatus exampleClock ''octo/app'' 2
                 (savePullRequests exampleClock
                    [toPullRequest EXTENSION_TO_LANGUAGE ''octo/app'' exampleNode,
                     toPullRequest EXTENSION_TO_LANGUAGE ''octo/app''
                       (exampleNode\<lparr>n_number := 2\<rparr>)]
                    syncedStore),
               [None, Some ''c1''], [1])"
    by (simp add: k1 example_page_fields)
  from t2 [THEN conjunct2, THEN conjunct2, THEN conjunct1]
  have r2: "map_option (\<lambda>r. (fst r, fst (snd (snd r))))
         (syncRepository pagedSource EXTENSION_TO_LANGUAGE exampleClock False ''octo/app''
            ''octo'' ''app'' emptyStore)
       = Some (Inr 4, [None, Some ''c1'', Some ''c2''])"
    by (simp add: k2 example_page_fields)
  have rows: "map col_number
         (pull_requests
            (savePullRequests exampleClock
               [toPullRequest EXTENSION_TO_LANGUAGE ''octo/app'' exampleNode,
                toPullRequest EXTENSION_TO_LANGUAGE ''octo/app''
                  (exampleNode\<lparr>n_number := 2\<rparr>)]
               syncedStore)) = [1, 2]"
    by (simp add: savePullRequests_def pull_requests_savePullRequest insertOrReplace_def
        conflicts_def syncedStore_def exampleNode_ids exampleNode_number)
  from s1 s2 c1 c2 k1 k2 r1 r2 rows show ?thesis
    by simp
qed

section \<open>Sync engine: failures of single repositories\<close>

lemma syncRepository_throw_store:
  "syncRepository src table clock fullSync repoPath owner rname st = Some (Inl message, st', requests, progress)
   \<Longrightarrow> st' = st"
  by (auto simp: syncRepository_def Let_def split: option.splits sum.splits)

lemma attempted_Nil: "attempted [] []"
  by (simp add: attempted_def)

lemma attempted_skip: "\<not> wellFormed r \<Longrightarrow> attempted rest new \<Longrightarrow> attempted (r # rest) new"
  by (simp add: attempted_def)

lemma attempted_stop: "wellFormed r \<Longrightarrow> res_repo e = r \<Longrightarrow> rateLimited e \<Longrightarrow> attempted (r # rest) [e]"
  by (simp add: attempted_def)

lemma attempted_cons:
  "wellFormed r \<Longrightarrow> res_repo e = r \<Longrightarrow> \<not> rateLimited e \<Longrightarrow> attempted rest new
   \<Longrightarrow> attempted (r # rest) (e # new)"
  by (cases new) (auto simp: attempted_def)

lemma recorded_ok:
  "ownerAndRepo r = Some (owner, rname)
   \<Longrightarrow> syncRepository src table clock fullSync r owner rname st = Some (Inr n, st1, requests, progress)
   \<Longrightarrow> recorded src table clock fullSync st1 new st'
   \<Longrightarrow> recorded src table clock fullSync st
         (\<lparr>res_repo = r, synced = n, res_error = None\<rparr> # new) st'"
  by simp

lemma recorded_error:
  "ownerAndRepo r = Some (owner, rname)
   \<Longrightarrow> syncRepository src table clock fullSync r owner rname st
         = Some (Inl message, st1, requests, progress)
   \<Longrightarrow> recorded src table clock fullSync st1 new st'
   \<Longrightarrow> recorded src table clock fullSync st
         (\<lparr>res_repo = r, synced = 0, res_error = Some message\<rparr> # new) st'"
  using syncRepository_throw_store [of src table clock fullSync r owner rname st message st1
      requests progress]
  by simp

text \<open>The results of the JSON route, by induction on the repository list.\<close>

lemma syncRepos_attempted:
  "syncRepos src clock fullSync rs st results = Some (results', st')
   \<Longrightarrow> \<exists>new. results' = results @ new \<and> attempted rs new
          \<and> recorded src EXTENSION_TO_LANGUAGE clock fullSync st new st'"
proof (induction rs arbitrary: st results)
  case Nil
  then show ?case by (simp add: attempted_Nil)
next
  case (Cons r rest)
  show ?case
  proof (cases "ownerAndRepo r")
    case None
    with Cons.prems have "syncRepos src clock fullSync rest st results = Some (results', st')"
      by simp
    from Cons.IH [OF this] obtain new where
      "results' = results @ new" and "attempted rest new"
      and "recorded src EXTENSION_TO_LANGUAGE clock fullSync st new st'" by blast
    moreover from None have "\<not> wellFormed r" by (simp add: wellFormed_def)
    ultimately show ?thesis using attempted_skip by blast
  next
    case (Some p)
    then obtain owner rname where p: "ownerAndRepo r = Some (owner, rname)"
      by (cases p) auto
    then have wf: "wellFormed r" by (simp add: wellFormed_def)
    from Cons.prems p obtain out st1 requests progress where
      out: "syncRepository src EXTENSION_TO_LANGUAGE clock fullSync r owner rname st
              = Some (out, st1, requests, progress)"
      by (auto split: option.splits)
    show ?thesis
    proof (cases out)
      case (Inr n)
      let ?e = "\<lparr>res_repo = r, synced = n, res_error = None\<rparr>"
      from Cons.prems p out Inr
      have "syncRepos src clock fullSync rest st1 (results @ [?e]) = Some (results', st')"
        by simp
      from Cons.IH [OF this] obtain new where
        n: "results' = (results @ [?e]) @ new" "attempted rest new"
        "recorded src EXTENSION_TO_LANGUAGE clock fullSync st1 new st'" by blast
      from recorded_ok [OF p out [unfolded Inr] n(3)]
      have "recorded src EXTENSION_TO_LANGUAGE clock fullSync st (?e # new) st'" .
      with n have "results' = results @ (?e # new) \<and> attempted (r # rest) (?e # new)
          \<and> recorded src EXTENSION_TO_LANGUAGE clock fullSync st (?e # new) st'"
        using wf by (simp add: attempted_cons rateLimited_def)
      then show ?thesis by blast
    next
      case (Inl message)
      let ?e = "\<lparr>res_repo = r, synced = 0, res_error = Some message\<rparr>"
      show ?thesis
      proof (cases "isRateLimit message")
        case True
        with Cons.prems p out Inl have r: "results' = results @ [?e]" and s: "st' = st1"
          by simp_all
        have "recorded src EXTENSION_TO_LANGUAGE clock fullSync st1 [] st'"
          using s by simp
        from recorded_error [OF p out [unfolded Inl] this]
        have "recorded src EXTENSION_TO_LANGUAGE clock fullSync st [?e] st'" .
        moreover have "attempted (r # rest) [?e]"
          using wf True by (simp add: attempted_stop rateLimited_def)
        ultimately show ?thesis using r by blast
      next
        case False
        with Cons.prems p out Inl
        have "syncRepos src clock fullSync rest st1 (results @ [?e]) = Some (results', st')"
          by simp
        from Cons.IH [OF this] obtain new where
          n: "results' = (results @ [?e]) @ new" "attempted rest new"
          "recorded src EXTENSION_TO_LANGUAGE clock fullSync st1 new st'" by blast
        from recorded_error [OF p out [unfolded Inl] n(3)]
        have "recorded src EXTENSION_TO_LANGUAGE clock fullSync st (?e # new) st'" .
        with n have "results' = results @ (?e # new) \<and> attempted (r # rest) (?e # new)
            \<and> recorded src EXTENSION_TO_LANGUAGE clock fullSync st (?e # new) st'"
          using wf False by (simp add: attempted_cons rateLimited_def)
        then show ?thesis by blast
      qed
    qed
  qed
qed

lemma syncRepos_returns:
  "(\<forall>repoPath owner rname st0.
      syncRepository src EXTENSION_TO_LANGUAGE clock fullSync repoPath owner rname st0 \<noteq> None)
   \<Longrightarrow> syncRepos src clock fullSync rs st results \<noteq> None"
proof (induction rs arbitrary: st results)
  case Nil
  then show ?case by simp
next
  case (Cons r rest)
  show ?case
  proof (cases "ownerAndRepo r")
    case None
    with Cons show ?thesis by simp
  next
    case (Some p)
    obtain owner rname where p: "p = (owner, rname)" by (cases p)
    from Cons.prems obtain out st1 requests progress where
      "syncRepository src EXTENSION_TO_LANGUAGE clock fullSync r owner rname st
         = Some (out, st1, requests, progress)"
      by (metis not_Some_eq prod_cases4)
    with Some p Cons show ?thesis
      by (cases out) (simp_all add: Let_def)
  qed
qed

lemma streamRepos_returns:
  "(\<forall>repoPath owner rname st0.
      syncRepository src EXTENSION_TO_LANGUAGE_stream clock fullSync repoPath owner rname st0
        \<noteq> None)
   \<Longrightarrow> streamRepos src clock fullSync totalRepos i rs s \<noteq> None"
proof (induction rs arbitrary: i s)
  case Nil
  then show ?case by simp
next
  case (Cons r rest)
  show ?case
  proof (cases "ownerAndRepo r")
    case None
    with Cons show ?thesis by simp
  next
    case (Some p)
    obtain owner rname where p: "p = (owner, rname)" by (cases p)
    from Cons.prems obtain out st1 requests progress where
      "syncRepository src EXTENSION_TO_LANGUAGE_stream clock fullSync r owner rname (st_store s)
         = Some (out, st1, requests, progress)"
      by (metis not_Some_eq prod_cases4)
    with Some p Cons show ?thesis
      by (cases out) (simp_all add: Let_def)
  qed
qed

lemma rateLimitMessages_append:
  "rateLimitMessages (a @ b) = rateLimitMessages a @ rateLimitMessages b"
  by (induction a rule: rateLimitMessages.induct) simp_all

lemma rateLimitMessages_progress [simp]: "rateLimitMessages (map (EvRepoProgress r) xs) = []"
  by (induction xs) simp_all

lemma errorEvents_append: "errorEvents (a @ b) = errorEvents a @ errorEvents b"
  by (induction a rule: errorEvents.induct) simp_all

lemma errorEvents_progress [simp]: "errorEvents (map (EvRepoProgress r) xs) = []"
  by (induction xs) simp_all

lemma abortMessages_Nil [simp]: "abortMessages [] = []"
  by (simp add: abortMessages_def)

lemma abortMessages_Cons: "new \<noteq> [] \<Longrightarrow> abortMessages (e # new) = abortMessages new"
  by (simp add: abortMessages_def)

lemma abortMessages_single:
  "abortMessages [e] = (if rateLimited e then (case res_error e of Some m \<Rightarrow> [m] | None \<Rightarrow> []) else [])"
  by (simp add: abortMessages_def)

lemma abortMessages_step:
  "\<not> rateLimited e \<Longrightarrow> abortMessages (e # new) = abortMessages new"
  by (cases new) (simp_all add: abortMessages_Cons abortMessages_single)

lemma failures_simps [simp]:
  "failures [] = []"
  "failures (\<lparr>res_repo = r, synced = n, res_error = None\<rparr> # new) = failures new"
  "failures (\<lparr>res_repo = r, synced = n, res_error = Some message\<rparr> # new)
     = (r, message) # failures new"
  by (simp_all add: failures_def)

text \<open>The results and events of the streaming route.\<close>

lemma streamRepos_attempted:
  "streamRepos src clock fullSync totalRepos i rs s = Some s'
   \<Longrightarrow> \<exists>new evs. st_results s' = st_results s @ new \<and> st_events s' = st_events s @ evs
          \<and> attempted rs new
          \<and> recorded src EXTENSION_TO_LANGUAGE_stream clock fullSync (st_store s) new (st_store s')
          \<and> rateLimitMessages evs = abortMessages new
          \<and> errorEvents evs = failures new
          \<and> st_totalSynced s' = st_totalSynced s + sum_list (map synced new)"
proof (induction rs arbitrary: i s)
  case Nil
  then show ?case by (simp add: attempted_Nil)
next
  case (Cons r rest)
  show ?case
  proof (cases "ownerAndRepo r")
    case None
    with Cons.prems have "streamRepos src clock fullSync totalRepos (Suc i) rest s = Some s'"
      by simp
    from Cons.IH [OF this] obtain new evs where
      "st_results s' = st_results s @ new" "st_events s' = st_events s @ evs"
      "attempted rest new"
      "recorded src EXTENSION_TO_LANGUAGE_stream clock fullSync (st_store s) new (st_store s')"
      "rateLimitMessages evs = abortMessages new" "errorEvents evs = failures new"
      "st_totalSynced s' = st_totalSynced s + sum_list (map synced new)" by blast
    moreover from None have "\<not> wellFormed r" by (simp add: wellFormed_def)
    ultimately show ?thesis using attempted_skip by blast
  next
    case (Some p)
    then obtain owner rname where p: "ownerAndRepo r = Some (owner, rname)"
      by (cases p) auto
    then have wf: "wellFormed r" by (simp add: wellFormed_def)
    let ?start = "EvRepoStart r i totalRepos (ev_progress i totalRepos)"
    from Cons.prems p obtain out st1 requests progress where
      out: "syncRepository src EXTENSION_TO_LANGUAGE_stream clock fullSync r owner rname
              (st_store s) = Some (out, st1, requests, progress)"
      by (auto simp: Let_def split: option.splits)
    show ?thesis
    proof (cases out)
      case (Inr n)
      let ?e = "\<lparr>res_repo = r, synced = n, res_error = None\<rparr>"
      let ?evs = "?start # map (EvRepoProgress r) progress
          @ [EvRepoComplete r n i totalRepos (ev_progress (Suc i) totalRepos)
               (st_totalSynced s + n)]"
      let ?s1 = "\<lparr>st_results = st_results s @ [?e], st_totalSynced = st_totalSynced s + n,
          st_events = st_events s @ ?evs, st_store = st1\<rparr>"
      from Cons.prems p out Inr
      have "streamRepos src clock fullSync totalRepos (Suc i) rest ?s1 = Some s'"
        by (simp add: Let_def)
      from Cons.IH [OF this] obtain new evs where
        r: "st_results s' = (st_results s @ [?e]) @ new"
        and e: "st_events s' = (st_events s @ ?evs) @ evs"
        and a: "attempted rest new"
        and rec: "recorded src EXTENSION_TO_LANGUAGE_stream clock fullSync st1 new (st_store s')"
        and m: "rateLimitMessages evs = abortMessages new"
        and f: "errorEvents evs = failures new"
        and t: "st_totalSynced s' = st_totalSynced s + n + sum_list (map synced new)"
        by auto
      have ne: "\<not> rateLimited ?e" by (simp add: rateLimited_def)
      have "rateLimitMessages (?evs @ evs) = abortMessages (?e # new)"
        using m ne by (simp add: rateLimitMessages_append abortMessages_step)
      moreover have "errorEvents (?evs @ evs) = failures (?e # new)"
        using f by (simp add: errorEvents_append)
      moreover have "attempted (r # rest) (?e # new)"
        using wf a ne by (simp add: attempted_cons)
      moreover have "recorded src EXTENSION_TO_LANGUAGE_stream clock fullSync (st_store s)
          (?e # new) (st_store s')"
        by (rule recorded_ok [OF p out [unfolded Inr] rec])
      ultimately show ?thesis using r e t
        by (intro exI [of _ "?e # new"] exI [of _ "?evs @ evs"]) simp
    next
      case (Inl message)
      let ?e = "\<lparr>res_repo = r, synced = 0, res_error = Some message\<rparr>"
      let ?evs = "?start # map (EvRepoProgress r) progress
          @ [EvRepoError r message i totalRepos (ev_progress (Suc i) totalRepos)]"
      let ?s1 = "\<lparr>st_results = st_results s @ [?e], st_totalSynced = st_totalSynced s,
          st_events = st_events s @ ?evs, st_store = st1\<rparr>"
      show ?thesis
      proof (cases "isRateLimit message")
        case True
        with Cons.prems p out Inl
        have s': "s' = ?s1\<lparr>st_events := st_events ?s1 @ [EvRateLimited message]\<rparr>"
          by (simp add: Let_def)
        have "attempted (r # rest) [?e]"
          using wf True by (simp add: attempted_stop rateLimited_def)
        moreover have "rateLimitMessages (?evs @ [EvRateLimited message]) = abortMessages [?e]"
          using True by (simp add: rateLimitMessages_append abortMessages_single rateLimited_def)
        moreover have "errorEvents (?evs @ [EvRateLimited message]) = failures [?e]"
          by (simp add: errorEvents_append)
        moreover have "recorded src EXTENSION_TO_LANGUAGE_stream clock fullSync (st_store s)
            [?e] (st_store s')"
        proof -
          have "recorded src EXTENSION_TO_LANGUAGE_stream clock fullSync st1 [] (st_store s')"
            using s' by simp
          from recorded_error [OF p out [unfolded Inl] this] show ?thesis .
        qed
        ultimately show ?thesis using s'
          by (intro exI [of _ "[?e]"] exI [of _ "?evs @ [EvRateLimited message]"]) simp
      next
        case False
        with Cons.prems p out Inl
        have "streamRepos src clock fullSync totalRepos (Suc i) rest ?s1 = Some s'"
          by (simp add: Let_def)
        from Cons.IH [OF this] obtain new evs where
          r: "st_results s' = (st_results s @ [?e]) @ new"
          and e: "st_events s' = (st_events s @ ?evs) @ evs"
          and a: "attempted rest new"
          and rec: "recorded src EXTENSION_TO_LANGUAGE_stream clock fullSync st1 new (st_store s')"
          and m: "rateLimitMessages evs = abortMessages new"
          and f: "errorEvents evs = failures new"
          and t: "st_totalSynced s' = st_totalSynced s + sum_list (map synced new)"
          by auto
        have ne: "\<not> rateLimited ?e" using False by (simp add: rateLimited_def)
        have "rateLimitMessages (?evs @ evs) = abortMessages (?e # new)"
          using m ne by (simp add: rateLimitMessages_append abortMessages_step)
        moreover have "errorEvents (?evs @ evs) = failures (?e # new)"
          using f by (simp add: errorEvents_append)
        moreover have "attempted (r # rest) (?e # new)"
          using wf a ne by (simp add: attempted_cons)
        moreover have "recorded src EXTENSION_TO_LANGUAGE_stream clock fullSync (st_store s)
            (?e # new) (st_store s')"
          by (rule recorded_error [OF p out [unfolded Inl] rec])
        ultimately show ?thesis using r e t
          by (intro exI [of _ "?e # new"] exI [of _ "?evs @ evs"]) simp
      qed
    qed
  qed
qed

lemma POST_sync_attempted:
  assumes "POST_sync src clock fullSync rateBefore rateAfter rs st = Some (Synced response, st')"
  shows "success response \<and> attempted rs (sr_results response)
       \<and> recorded src EXTENSION_TO_LANGUAGE clock fullSync st (sr_results response) st'
       \<and> sr_totalSynced response = sum_list (map synced (sr_results response))"
proof -
  from assms obtain results where "syncRepos src clock fullSync rs st [] = Some (results, st')"
    and "sr_results response = results" and "success response"
    and "sr_totalSynced response = sum_list (map synced results)"
    by (auto simp: POST_sync_def split: if_splits option.splits)
  with syncRepos_attempted [of src clock fullSync rs st "[]" results st'] show ?thesis
    by auto
qed

lemma POST_sync_returns:
  "(\<forall>repoPath owner rname st0.
      syncRepository src EXTENSION_TO_LANGUAGE clock fullSync repoPath owner rname st0 \<noteq> None)
   \<Longrightarrow> POST_sync src clock fullSync rateBefore rateAfter rs st \<noteq> None"
  using syncRepos_returns [of src clock fullSync rs st "[]"]
  by (auto simp: POST_sync_def split: option.splits)

lemma POST_stream_returns:
  "(\<forall>repoPath owner rname st0.
      syncRepository src EXTENSION_TO_LANGUAGE_stream clock fullSync repoPath owner rname st0
        \<noteq> None)
   \<Longrightarrow> POST_stream src clock fullSync resume requested st \<noteq> None"
proof -
  assume a: "\<forall>repoPath owner rname st0.
      syncRepository src EXTENSION_TO_LANGUAGE_stream clock fullSync repoPath owner rname st0
        \<noteq> None"
  let ?rs = "reposToSync clock resume requested st"
  let ?sk = "skippedRepos clock resume requested st"
  from streamRepos_returns [OF a] obtain s where
    "streamRepos src clock fullSync (length ?rs) 0 ?rs
       \<lparr>st_results = [], st_totalSynced = 0,
        st_events = [EvStart (length ?rs) ?rs ?sk (length ?sk)],
        st_store = afterResumeCheck resume st\<rparr> = Some s"
    by blast
  then show ?thesis
    by (simp add: POST_stream_def Let_def)
qed

lemma POST_stream_attempted:
  assumes "POST_stream src clock fullSync resume requested st = Some (EventStream evs, st')"
  shows "\<exists>results n. evs \<noteq> []
           \<and> last evs = EvComplete results n (length (reposToSync clock resume requested st))
           \<and> attempted (reposToSync clock resume requested st) results
           \<and> recorded src EXTENSION_TO_LANGUAGE_stream clock fullSync
                 (afterResumeCheck resume st) results st'
           \<and> rateLimitMessages evs = abortMessages results
           \<and> errorEvents evs = failures results
           \<and> n = sum_list (map synced results)"
proof -
  let ?rs = "reposToSync clock resume requested st"
  let ?sk = "skippedRepos clock resume requested st"
  let ?s0 = "\<lparr>st_results = [], st_totalSynced = 0,
      st_events = [EvStart (length ?rs) ?rs ?sk (length ?sk)],
      st_store = afterResumeCheck resume st\<rparr>"
  from assms obtain s where s: "streamRepos src clock fullSync (length ?rs) 0 ?rs ?s0 = Some s"
    and evs: "evs = st_events s @ [EvComplete (st_results s) (st_totalSynced s) (length ?rs)]"
    and st': "st' = st_store s"
    by (auto simp: POST_stream_def Let_def split: if_splits option.splits)
  from streamRepos_attempted [OF s] obtain new es where
    "st_results s = new" "st_events s = [EvStart (length ?rs) ?rs ?sk (length ?sk)] @ es"
    "attempted ?rs new"
    "recorded src EXTENSION_TO_LANGUAGE_stream clock fullSync (afterResumeCheck resume st) new
       (st_store s)"
    "rateLimitMessages es = abortMessages new" "errorEvents es = failures new"
    "st_totalSynced s = sum_list (map synced new)"
    by auto
  with evs st' show ?thesis
    by (simp add: rateLimitMessages_append errorEvents_append)
qed

lemma flaky_paths:
  "ownerAndRepo ''octo/app'' = Some (''octo'', ''app'')"
  "ownerAndRepo ''nonsense'' = None"
  "ownerAndRepo ''octo/down'' = Some (''octo'', ''down'')"
  "ownerAndRepo ''octo/limited'' = Some (''octo'', ''limited'')"
  by code_simp+

lemma flaky_messages:
  "\<not> isRateLimit ''Bad gateway''" "isRateLimit ''API rate limit exceeded''"
  by code_simp+

lemma flaky_app:
  "syncRepository flakySource table clock fullSync ''octo/app'' ''octo'' ''app'' st
     = Some (Inr 0, updateSyncStatus clock ''octo/app'' 0 st, [None], [])"
proof -
  have p: "flakySource ''octo'' ''app'' None
      = Inr \<lparr>hasNextPage = False, endCursor = [], nodes = []\<rparr>"
    by (simp add: flakySource_def)
  show ?thesis
    by (simp add: syncRepository_def
        fetchLoop_last [where graphql = "flakySource ''octo'' ''app''" and cursor = None, OF p])
qed

lemma flaky_down:
  "syncRepository flakySource table clock fullSync ''octo/down'' ''octo'' ''down'' st
     = Some (Inl ''Bad gateway'', st, [None], [])"
proof -
  have p: "flakySource ''octo'' ''down'' None = Inl ''Bad gateway''"
    by (simp add: flakySource_def)
  show ?thesis
    by (simp add: syncRepository_def
        fetchLoop_throw [where graphql = "flakySource ''octo'' ''down''" and cursor = None, OF p])
qed

lemma flaky_limited:
  "syncRepository flakySource table clock fullSync ''octo/limited'' ''octo'' ''limited'' st
     = Some (Inl ''API rate limit exceeded'', st, [None], [])"
proof -
  have p: "flakySource ''octo'' ''limited'' None = Inl ''API rate limit exceeded''"
    by (simp add: flakySource_def)
  show ?thesis
    by (simp add: syncRepository_def
        fetchLoop_throw [where graphql = "flakySource ''octo'' ''limited''" and cursor = None,
          OF p])
qed

lemma flaky_sync:
  "syncRepos flakySource clock False exampleRepos st []
     = Some ([\<lparr>res_repo = ''octo/app'', synced = 0, res_error = None\<rparr>,
              \<lparr>res_repo = ''octo/down'', synced = 0, res_error = Some ''Bad gateway''\<rparr>,
              \<lparr>res_repo = ''octo/limited'', synced = 0,
                res_error = Some ''API rate limit exceeded''\<rparr>],
             updateSyncStatus clock ''octo/app'' 0 st)"
  by (simp add: exampleRepos_def flaky_paths flaky_messages flaky_app flaky_down flaky_limited)

lemma flaky_POST_sync:
  "POST_sync flakySource exampleClock False None None exampleRepos emptyStore
     = Some (Synced \<lparr>success = True,
                  sr_results =
                    [\<lparr>res_repo = ''octo/app'', synced = 0, res_error = None\<rparr>,
                     \<lparr>res_repo = ''octo/down'', synced = 0, res_error = Some ''Bad gateway''\<rparr>,
                     \<lparr>res_repo = ''octo/limited'', synced = 0,
                       res_error = Some ''API rate limit exceeded''\<rparr>],
                  sr_totalSynced = 0, sr_totalCached = 0, sr_rateLimitRemaining = None\<rparr>,
             updateSyncStatus exampleClock ''octo/app'' 0 emptyStore)"
  by (simp add: POST_sync_def flaky_sync) (simp add: exampleRepos_def getTotalCachedPRs_def emptyStore_def)

text \<open>
  Claim C9, as stated, fails in one point: the JSON route does not surface a rate-limit
  abort distinctly. A request for \<open>octo/limited\<close> and \<open>octo/later\<close>, aborted at the first
  repository by a rate-limit error, and a request for \<open>octo/down\<close> and a malformed path,
  completed with one ordinary failure, get responses of the same form: status 200,
  \<open>success: true\<close>, one entry with 0 records and an error text, no other field. The
  streaming route tells them apart by its \<open>rate_limited\<close> event.
\<close>

theorem json_abort_not_distinct_counterexample:
  "POST_sync flakySource exampleClock False None None [''octo/limited'', ''octo/later'']
       emptyStore
     = Some (Synced \<lparr>success = True,
                      sr_results = [\<lparr>res_repo = ''octo/limited'', synced = 0,
                                      res_error = Some ''API rate limit exceeded''\<rparr>],
                      sr_totalSynced = 0, sr_totalCached = 0, sr_rateLimitRemaining = None\<rparr>,
             emptyStore)
   \<and> POST_sync flakySource exampleClock False None None [''octo/down'', ''nonsense'']
       emptyStore
     = Some (Synced \<lparr>success = True,
                      sr_results = [\<lparr>res_repo = ''octo/down'', synced = 0,
                                      res_error = Some ''Bad gateway''\<rparr>],
                      sr_totalSynced = 0, sr_totalCached = 0, sr_rateLimitRemaining = None\<rparr>,
             emptyStore)
   \<and> isRateLimit ''API rate limit exceeded'' \<and> \<not> isRateLimit ''Bad gateway''
   \<and> map_option (\<lambda>r. case fst r of EventStream evs \<Rightarrow> rateLimitMessages evs
                                  | NoRepositories \<Rightarrow> [] | NothingToResume n \<Rightarrow> [])
        (POST_stream flakySource exampleClock False False [''octo/limited'', ''octo/later'']
           emptyStore)
       = Some [''API rate limit exceeded'']
   \<and> map_option (\<lambda>r. case fst r of EventStream evs \<Rightarrow> rateLimitMessages evs
                                  | NoRepositories \<Rightarrow> [] | NothingToResume n \<Rightarrow> [])
        (POST_stream flakySource exampleClock False False [''octo/down'', ''nonsense'']
           emptyStore)
       = Some []"
proof -
  have 1: "POST_sync flakySource exampleClock False None None [''octo/limited'', ''octo/later'']
       emptyStore
     = Some (Synced \<lparr>success = True,
                      sr_results = [\<lparr>res_repo = ''octo/limited'', synced = 0,
                                      res_error = Some ''API rate limit exceeded''\<rparr>],
                      sr_totalSynced = 0, sr_totalCached = 0, sr_rateLimitRemaining = None\<rparr>,
             emptyStore)"
    by (simp add: POST_sync_def flaky_paths flaky_messages flaky_limited)
       (simp add: getTotalCachedPRs_def emptyStore_def)
  have 2: "POST_sync flakySource exampleClock False None None [''octo/down'', ''nonsense'']
       emptyStore
     = Some (Synced \<lparr>success = True,
                      sr_results = [\<lparr>res_repo = ''octo/down'', synced = 0,
                                      res_error = Some ''Bad gateway''\<rparr>],
                      sr_totalSynced = 0, sr_totalCached = 0, sr_rateLimitRemaining = None\<rparr>,
             emptyStore)"
    by (simp add: POST_sync_def flaky_paths flaky_messages flaky_down)
       (simp add: getTotalCachedPRs_def emptyStore_def)
  have 3: "map_option (\<lambda>r. case fst r of EventStream evs \<Rightarrow> rateLimitMessages evs
                                  | NoRepositories \<Rightarrow> [] | NothingToResume n \<Rightarrow> [])
        (POST_stream flakySource exampleClock False False [''octo/limited'', ''octo/later'']
           emptyStore)
       = Some [''API rate limit exceeded'']"
    by (simp add: POST_stream_def reposToSync_def skippedRepos_def afterResumeCheck_def Let_def
        flaky_paths flaky_messages flaky_limited rateLimitMessages_append)
  have 4: "map_option (\<lambda>r. case fst r of EventStream evs \<Rightarrow> rateLimitMessages evs
                                  | NoRepositories \<Rightarrow> [] | NothingToResume n \<Rightarrow> [])
        (POST_stream flakySource exampleClock False False [''octo/down'', ''nonsense'']
           emptyStore)
       = Some []"
    by (simp add: POST_stream_def reposToSync_def skippedRepos_def afterResumeCheck_def Let_def
        flaky_paths flaky_messages flaky_down rateLimitMessages_append)
  from 1 2 3 4 flaky_messages show ?thesis by simp
qed

text \<open>
  Claim C9, amended. In both routes an error thrown while one repository is fetched is
  caught and recorded, with its message and 0 synced records, in that repository's entry,
  and the store is as before; the loop goes on with the next repository unless the
  message is of the rate-limit class (it contains \<open>rate limit\<close>, \<open>403\<close> or
  \<open>RATE_LIMITED\<close>), in which case no further repository is processed. The returned
  results hold one entry for every well-formed repository to sync, in order, up to and
  including the first rate-limit failure; no entry before the last is a rate-limit
  failure; and every entry records what the sync of its repository returned on the store
  that the entries before it left. The streaming route (with or without resume mode,
  which first drops the repositories synced within the last hour) reports every failure
  in a \<open>repo_error\<close> event, ends with the \<open>complete\<close> event that carries these results, and
  surfaces the abort distinctly: it emits a \<open>rate_limited\<close> event with the message
  exactly when the results end with a rate-limit failure. The JSON route answers with
  \<open>success: true\<close> and these results, so that it reports an abort only through the
  message of the last entry. Both routes return whenever each repository's sync does.
\<close>

theorem sync_failure_handling:
  "(POST_sync src clock fullSync rateBefore rateAfter rs st = Some (Synced response, st')
      \<longrightarrow> success response \<and> attempted rs (sr_results response)
          \<and> recorded src EXTENSION_TO_LANGUAGE clock fullSync st (sr_results response) st'
          \<and> sr_totalSynced response = sum_list (map synced (sr_results response)))
   \<and> (POST_stream src clock fullSync resume rs st = Some (EventStream evs, st'')
        \<longrightarrow> (\<exists>results n. evs \<noteq> []
               \<and> last evs = EvComplete results n (length (reposToSync clock resume rs st))
               \<and> attempted (reposToSync clock resume rs st) results
               \<and> recorded src EXTENSION_TO_LANGUAGE_stream clock fullSync
                     (afterResumeCheck resume st) results st''
               \<and> rateLimitMessages evs = abortMessages results
               \<and> errorEvents evs = failures results
               \<and> n = sum_list (map synced results)))
   \<and> ((\<forall>repoPath owner rname st0.
          syncRepository src EXTENSION_TO_LANGUAGE clock fullSync repoPath owner rname st0
            \<noteq> None)
        \<longrightarrow> POST_sync src clock fullSync rateBefore rateAfter rs st \<noteq> None)
   \<and> ((\<forall>repoPath owner rname st0.
          syncRepository src EXTENSION_TO_LANGUAGE_stream clock fullSync repoPath owner rname st0
            \<noteq> None)
        \<longrightarrow> POST_stream src clock fullSync resume rs st \<noteq> None)"
proof -
  have a: "POST_sync src clock fullSync rateBefore rateAfter rs st = Some (Synced response, st')
      \<longrightarrow> success response \<and> attempted rs (sr_results response)
          \<and> recorded src EXTENSION_TO_LANGUAGE clock fullSync st (sr_results response) st'
          \<and> sr_totalSynced response = sum_list (map synced (sr_results response))"
    using POST_sync_attempted by blast
  have b: "POST_stream src clock fullSync resume rs st = Some (EventStream evs, st'')
        \<longrightarrow> (\<exists>results n. evs \<noteq> []
               \<and> last evs = EvComplete results n (length (reposToSync clock resume rs st))
               \<and> attempted (reposToSync clock resume rs st) results
               \<and> recorded src EXTENSION_TO_LANGUAGE_stream clock fullSync
                     (afterResumeCheck resume st) results st''
               \<and> rateLimitMessages evs = abortMessages results
               \<and> errorEvents evs = failures results
               \<and> n = sum_list (map synced results))"
    using POST_stream_attempted by blast
  have c: "(\<forall>repoPath owner rname st0.
          syncRepository src EXTENSION_TO_LANGUAGE clock fullSync repoPath owner rname st0
            \<noteq> None)
        \<longrightarrow> POST_sync src clock fullSync rateBefore rateAfter rs st \<noteq> None"
    using POST_sync_returns by blast
  have d: "(\<forall>repoPath owner rname st0.
          syncRepository src EXTENSION_TO_LANGUAGE_stream clock fullSync repoPath owner rname st0
            \<noteq> None)
        \<longrightarrow> POST_stream src clock fullSync resume rs st \<noteq> None"
    using POST_stream_returns by blast
  show ?thesis
    apply (rule conjI, rule a)
    apply (rule conjI, rule b)
    apply (rule conjI, rule c)
    apply (rule d)
    done
qed


text \<open>
  The example source, of which every sync returns after one request. The JSON route for
  the five example paths on an empty store; the streaming route in resume mode for the
  same paths on a store in which \<open>octo/app\<close> was synced at the time of the request, so
  that it is dropped.
\<close>

lemma flaky_returns:
  "syncRepository flakySource table clock fullSync repoPath owner rname st0 \<noteq> None"
  unfolding syncRepository_def Let_def
  by (subst fetchLoop.simps) (simp add: flakySource_def)

lemma flaky_progress:
  "ev_progress (Suc 0) (Suc (Suc (Suc (Suc 0)))) = 25"
  "ev_progress (Suc (Suc 0)) (Suc (Suc (Suc (Suc 0)))) = 50"
  "ev_progress (Suc (Suc (Suc 0))) (Suc (Suc (Suc (Suc 0)))) = 75"
  by code_simp+

lemma flaky_resume:
  "reposToSync exampleClock True exampleRepos syncedStore
     = [''nonsense'', ''octo/down'', ''octo/limited'', ''octo/later'']"
  "skippedRepos exampleClock True exampleRepos syncedStore = [''octo/app'']"
  by (simp_all add: reposToSync_def skippedRepos_def exampleRepos_def recentlySynced_def
      getLastSyncedAt_def syncedStore_def exampleClock_def RESUME_THRESHOLD_MS_def)

lemma flaky_POST_stream:
  "POST_stream flakySource exampleClock False True exampleRepos syncedStore
     = Some (EventStream
               [EvStart 4 [''nonsense'', ''octo/down'', ''octo/limited'', ''octo/later'']
                  [''octo/app''] 1,
                EvRepoStart ''octo/down'' 1 4 25,
                EvRepoError ''octo/down'' ''Bad gateway'' 1 4 50,
                EvRepoStart ''octo/limited'' 2 4 50,
                EvRepoError ''octo/limited'' ''API rate limit exceeded'' 2 4 75,
                EvRateLimited ''API rate limit exceeded'',
                EvComplete
                  [\<lparr>res_repo = ''octo/down'', synced = 0, res_error = Some ''Bad gateway''\<rparr>,
                   \<lparr>res_repo = ''octo/limited'', synced = 0,
                     res_error = Some ''API rate limit exceeded''\<rparr>] 0 4],
             afterResumeCheck True syncedStore)"
proof -
  have n: "length exampleRepos \<noteq> 0"
    by (simp add: exampleRepos_def)
  show ?thesis
    using n
    by (simp add: POST_stream_def flaky_resume Let_def flaky_paths flaky_messages flaky_down
        flaky_limited flaky_progress)
qed

theorem sync_failure_handling_witness:
  "POST_sync flakySource exampleClock False None None exampleRepos emptyStore
     = Some (Synced \<lparr>success = True,
                  sr_results =
                    [\<lparr>res_repo = ''octo/app'', synced = 0, res_error = None\<rparr>,
                     \<lparr>res_repo = ''octo/down'', synced = 0, res_error = Some ''Bad gateway''\<rparr>,
                     \<lparr>res_repo = ''octo/limited'', synced = 0,
                       res_error = Some ''API rate limit exceeded''\<rparr>],
                  sr_totalSynced = 0, sr_totalCached = 0, sr_rateLimitRemaining = None\<rparr>,
             updateSyncStatus exampleClock ''octo/app'' 0 emptyStore)
   \<and> attempted exampleRepos
        [\<lparr>res_repo = ''octo/app'', synced = 0, res_error = None\<rparr>,
         \<lparr>res_repo = ''octo/down'', synced = 0, res_error = Some ''Bad gateway''\<rparr>,
         \<lparr>res_repo = ''octo/limited'', synced = 0,
           res_error = Some ''API rate limit exceeded''\<rparr>]
   \<and> recorded flakySource EXTENSION_TO_LANGUAGE exampleClock False emptyStore
        [\<lparr>res_repo = ''octo/app'', synced = 0, res_error = None\<rparr>,
         \<lparr>res_repo = ''octo/down'', synced = 0, res_error = Some ''Bad gateway''\<rparr>,
         \<lparr>res_repo = ''octo/limited'', synced = 0,
           res_error = Some ''API rate limit exceeded''\<rparr>]
        (updateSyncStatus exampleClock ''octo/app'' 0 emptyStore)
   \<and> reposToSync exampleClock True exampleRepos syncedStore
       = [''nonsense'', ''octo/down'', ''octo/limited'', ''octo/later'']
   \<and> map_option (\<lambda>r. case fst r of EventStream evs \<Rightarrow> (rateLimitMessages evs, errorEvents evs)
                                  | NoRepositories \<Rightarrow> ([], []) | NothingToResume n \<Rightarrow> ([], []))
        (POST_stream flakySource exampleClock False True exampleRepos syncedStore)
       = Some ([''API rate limit exceeded''],
               [(''octo/down'', ''Bad gateway''), (''octo/limited'', ''API rate limit exceeded'')])
   \<and> attempted [''nonsense'', ''octo/down'', ''octo/limited'', ''octo/later'']
        [\<lparr>res_repo = ''octo/down'', synced = 0, res_error = Some ''Bad gateway''\<rparr>,
         \<lparr>res_repo = ''octo/limited'', synced = 0,
           res_error = Some ''API rate limit exceeded''\<rparr>]
   \<and> recorded flakySource EXTENSION_TO_LANGUAGE_stream exampleClock False
        (afterResumeCheck True syncedStore)
        [\<lparr>res_repo = ''octo/down'', synced = 0, res_error = Some ''Bad gateway''\<rparr>,
         \<lparr>res_repo = ''octo/limited'', synced = 0,
           res_error = Some ''API rate limit exceeded''\<rparr>]
        (afterResumeCheck True syncedStore)
   \<and> abortMessages
        [\<lparr>res_repo = ''octo/down'', synced = 0, res_error = Some ''Bad gateway''\<rparr>,
         \<lparr>res_repo = ''octo/limited'', synced = 0,
           res_error = Some ''API rate limit exceeded''\<rparr>] = [''API rate limit exceeded'']
   \<and> failures
        [\<lparr>res_repo = ''octo/down'', synced = 0, res_error = Some ''Bad gateway''\<rparr>,
         \<lparr>res_repo = ''octo/limited'', synced = 0,
           res_error = Some ''API rate limit exceeded''\<rparr>]
       = [(''octo/down'', ''Bad gateway''), (''octo/limited'', ''API rate limit exceeded'')]
   \<and> POST_sync flakySource exampleClock False None None [''octo/later''] emptyStore \<noteq> None
   \<and> POST_stream flakySource exampleClock False True [''octo/later''] emptyStore \<noteq> None"
proof -
  note t = sync_failure_handling [where src = flakySource and clock = exampleClock
      and fullSync = False and rateBefore = None and rateAfter = None]
  note json = t [where rs = exampleRepos and st = emptyStore, THEN conjunct1, THEN mp,
      OF flaky_POST_sync]
  from json have j: "attempted exampleRepos
        [\<lparr>res_repo = ''octo/app'', synced = 0, res_error = None\<rparr>,
         \<lparr>res_repo = ''octo/down'', synced = 0, res_error = Some ''Bad gateway''\<rparr>,
         \<lparr>res_repo = ''octo/limited'', synced = 0,
           res_error = Some ''API rate limit exceeded''\<rparr>]
      \<and> recorded flakySource EXTENSION_TO_LANGUAGE exampleClock False emptyStore
        [\<lparr>res_repo = ''octo/app'', synced = 0, res_error = None\<rparr>,
         \<lparr>res_repo = ''octo/down'', synced = 0, res_error = Some ''Bad gateway''\<rparr>,
         \<lparr>res_repo = ''octo/limited'', synced = 0,
           res_error = Some ''API rate limit exceeded''\<rparr>]
        (updateSyncStatus exampleClock ''octo/app'' 0 emptyStore)"
    by simp
  note stream = t [where rs = exampleRepos and st = syncedStore and resume = True,
      THEN conjunct2, THEN conjunct1, THEN mp, OF flaky_POST_stream]
  let ?new = "[\<lparr>res_repo = ''octo/down'', synced = 0, res_error = Some ''Bad gateway''\<rparr>,
         \<lparr>res_repo = ''octo/limited'', synced = 0,
           res_error = Some ''API rate limit exceeded''\<rparr>]"
  from stream have s: "attempted [''nonsense'', ''octo/down'', ''octo/limited'', ''octo/later''] ?new
      \<and> recorded flakySource EXTENSION_TO_LANGUAGE_stream exampleClock False
           (afterResumeCheck True syncedStore) ?new (afterResumeCheck True syncedStore)
      \<and> abortMessages ?new = [''API rate limit exceeded'']
      \<and> failures ?new
          = [(''octo/down'', ''Bad gateway''), (''octo/limited'', ''API rate limit exceeded'')]"
    by (auto simp: flaky_resume)
  have r: "\<forall>repoPath owner rname st0.
      syncRepository flakySource EXTENSION_TO_LANGUAGE exampleClock False repoPath owner rname st0
        \<noteq> None"
    "\<forall>repoPath owner rname st0.
      syncRepository flakySource EXTENSION_TO_LANGUAGE_stream exampleClock False repoPath owner
        rname st0 \<noteq> None"
    by (simp_all add: flaky_returns)
  note r1 = t [where rs = "[''octo/later'']" and st = emptyStore,
      THEN conjunct2, THEN conjunct2, THEN conjunct1, THEN mp, OF r(1)]
  note r2 = t [where rs = "[''octo/later'']" and st = emptyStore and resume = True,
      THEN conjunct2, THEN conjunct2, THEN conjunct2, THEN mp, OF r(2)]
  have e: "map_option (\<lambda>r. case fst r of EventStream evs \<Rightarrow> (rateLimitMessages evs, errorEvents evs)
                                  | NoRepositories \<Rightarrow> ([], []) | NothingToResume n \<Rightarrow> ([], []))
        (POST_stream flakySource exampleClock False True exampleRepos syncedStore)
       = Some ([''API rate limit exceeded''],
               [(''octo/down'', ''Bad gateway''), (''octo/limited'', ''API rate limit exceeded'')])"
    by (simp add: flaky_POST_stream)
  from flaky_POST_sync j flaky_resume(1) e s r1 r2 show ?thesis
    by simp
qed

end
